theory Spec2Isabelle
  imports
    Complex_Main
    "HOL-Library.Sublist"
    "HOL-Library.Char_ord"
    "HOL-Library.List_Lexorder"
    "HOL-Library.Multiset"
begin

section \<open>Data model of \<^verbatim>\<open>youtube_music_analytics.py\<close>\<close>

text \<open>
  The dashboard reads one CSV file with pandas. A field of the file, once parsed, is
  either missing (an empty field, pandas' NaN), a numeric literal, or some other text.
  Floating-point numbers are idealised as reals; NaN is \<open>None\<close> (in a numeric column)
  or \<open>NA\<close> (in a raw field).
\<close>

datatype cell = NA | Num real | Text string

text \<open>
  What \<open>read_csv\<close> makes of a field of the columns \<open>title\<close> and \<open>channel\<close>: NaN
  for an empty field, a \<open>str\<close>, or a number when pandas reads the whole column as
  numbers. Only a \<open>str\<close> has a length.
\<close>

datatype text_value = Missing | Str string | Number real

fun is_str :: "text_value \<Rightarrow> bool" where
  "is_str (Str s) = True"
| "is_str Missing = False"
| "is_str (Number x) = False"

text \<open>
  One data line of the file. Only the six columns the program ever reads are kept;
  \<open>duration_string\<close> is only ever selected, never looked into. Which of the columns
  the file really has is told by its header.
\<close>

record csv_row =
  raw_title :: text_value
  raw_channel :: text_value
  raw_view_count :: cell
  raw_duration :: cell
  raw_duration_string :: "string option"
  raw_channel_follower_count :: cell

record csv =
  header :: "string list"
  records :: "csv_row list"

text \<open>
  What the disk holds under a path: nothing, a file the process may not open, or a
  file that parses into a header and records. How pandas parses the text of the file
  is not modelled.
\<close>

datatype disk_file = Absent | Unreadable | Content csv

text \<open>
  A row of the data frame \<open>self.df\<close> after the numeric conversion: the three numeric
  columns are float columns, the derived columns are present once
  \<open>load_and_clean_data\<close> has added them.
\<close>

record song =
  title :: text_value
  channel :: text_value
  view_count :: "real option"
  duration :: "real option"
  duration_string :: "string option"
  channel_follower_count :: "real option"
  duration_minutes :: "real option"
  views_in_billions :: "real option"
  views_in_millions :: "real option"

record frame =
  columns :: "string list"
  rows :: "song list"

text \<open>The exceptions of Python and its libraries that the program can meet.\<close>

datatype error =
    FileNotFoundError
  | PermissionError
  | KeyError "string list"
  | ValueError
  | TypeError
  | ZeroDivisionError
  | IndexError
  | AttributeError
  | OSError

text \<open>What the program prints, as far as the properties below read it.\<close>

datatype chart =
    TopSongs | TopChannels | ViewDistribution | DurationVsViews | DurationDistribution
  | FollowersVsViews | PopularityDistribution | TopChannelsByCount | CorrelationHeatmap

datatype message =
    LoadedRecords nat
  | RemovedRows nat
  | CleaningCompleted
  | EdaCompleted
  | DurationVsViewsCorr "real option"
  | FollowersVsViewsCorr "real option"
  | PopularityCategory string nat real
  | StatisticsCompleted
  | CreatedVisualization nat chart
  | AllVisualizationsSaved nat
  | ReportSaved
  | AnalysisCompleted
  | ErrorDuringAnalysis error
  | Traceback

datatype insight =
    DatasetContains nat nat
  | TotalCombinedViews real
  | MostViewedSong text_value
  | MegaHitSongs nat
  | AverageDuration "real option"

text \<open>
  The object \<open>YouTubeMusicAnalytics\<close>: every method takes the state and returns the
  new one.
\<close>

record dashboard =
  csv_file :: string
  df :: "frame option"
  insights :: "insight list"

definition init :: "string \<Rightarrow> dashboard" where
  "init path = \<lparr>csv_file = path, df = None, insights = []\<rparr>"

text \<open>
  A call either returns a value or raises, and in both cases it has printed something
  before: an outcome is the result together with the lines printed by the call. What
  was printed (and every chart saved, which is announced by a line) stays when the call
  raises. The object itself is not looked at again after a raise: \<open>run_analysis\<close>
  returns and \<open>main\<close> drops it.
\<close>

type_synonym 'a outcome = "(error + 'a) \<times> message list"

definition and_then :: "'a outcome \<Rightarrow> ('a \<Rightarrow> 'b outcome) \<Rightarrow> 'b outcome" where
  "and_then m f =
     (case m of
        (Inl e, out) \<Rightarrow> (Inl e, out)
      | (Inr x, out) \<Rightarrow> (case f x of (r, out') \<Rightarrow> (r, out @ out')))"

section \<open>Loading and cleaning\<close>

text \<open>\<open>pd.read_csv\<close>: the file must exist and be readable.\<close>

definition read_csv :: "(string \<Rightarrow> disk_file) \<Rightarrow> string \<Rightarrow> error + csv" where
  "read_csv fs path =
     (case fs path of
        Absent \<Rightarrow> Inl FileNotFoundError
      | Unreadable \<Rightarrow> Inl PermissionError
      | Content c \<Rightarrow> Inr c)"

text \<open>\<open>pd.to_numeric(..., errors='coerce')\<close>: what is not a number becomes NaN.\<close>

fun to_numeric :: "cell \<Rightarrow> real option" where
  "to_numeric NA = None"
| "to_numeric (Num x) = Some x"
| "to_numeric (Text s) = None"

definition convert :: "csv_row \<Rightarrow> song" where
  "convert r =
     \<lparr>title = raw_title r,
      channel = raw_channel r,
      view_count = to_numeric (raw_view_count r),
      duration = to_numeric (raw_duration r),
      duration_string = raw_duration_string r,
      channel_follower_count = to_numeric (raw_channel_follower_count r),
      duration_minutes = None,
      views_in_billions = None,
      views_in_millions = None\<rparr>"

text \<open>\<open>df.dropna(subset=['view_count', 'duration', 'channel'])\<close>.\<close>

definition complete :: "song \<Rightarrow> bool" where
  "complete r \<longleftrightarrow> view_count r \<noteq> None \<and> duration r \<noteq> None \<and> channel r \<noteq> Missing"

definition dropna :: "song list \<Rightarrow> song list" where
  "dropna rs = filter complete rs"

text \<open>The derived features; a NaN divided by a number stays NaN.\<close>

definition derive :: "song \<Rightarrow> song" where
  "derive r =
     r\<lparr>duration_minutes := map_option (\<lambda>d. d / 60) (duration r),
       views_in_billions := map_option (\<lambda>v. v / 1000000000) (view_count r),
       views_in_millions := map_option (\<lambda>v. v / 1000000) (view_count r)\<rparr>"

definition add_derived_features :: "song list \<Rightarrow> song list" where
  "add_derived_features rs = map derive rs"

definition derived_columns :: "string list" where
  "derived_columns = [''duration_minutes'', ''views_in_billions'', ''views_in_millions'']"

text \<open>
  \<open>load_and_clean_data\<close>. The number of records is printed as soon as the file is
  read. Reading a column the file does not have raises \<open>KeyError\<close>: the three
  conversions come first, in the order of the source, then \<open>dropna\<close> looks for its
  subset. The count of removed rows is printed only when it is positive.
\<close>

definition load_and_clean_data :: "(string \<Rightarrow> disk_file) \<Rightarrow> dashboard \<Rightarrow> dashboard outcome" where
  "load_and_clean_data fs d =
     (case read_csv fs (csv_file d) of
        Inl e \<Rightarrow> (Inl e, [])
      | Inr c \<Rightarrow>
          let loaded = [LoadedRecords (length (records c))] in
          if ''view_count'' \<notin> set (header c) then (Inl (KeyError [''view_count'']), loaded)
          else if ''duration'' \<notin> set (header c) then (Inl (KeyError [''duration'']), loaded)
          else if ''channel_follower_count'' \<notin> set (header c)
            then (Inl (KeyError [''channel_follower_count'']), loaded)
          else if ''channel'' \<notin> set (header c) then (Inl (KeyError [''channel'']), loaded)
          else
            let converted = map convert (records c);
                original_count = length converted;
                kept = dropna converted;
                removed_count = original_count - length kept
            in (Inr (d\<lparr>df := Some \<lparr>columns = header c @ derived_columns,
                                    rows = add_derived_features kept\<rparr>\<rparr>),
                loaded
                  @ (if removed_count > 0 then [RemovedRows removed_count] else [])
                  @ [CleaningCompleted]))"

section \<open>What pandas is asked for\<close>

text \<open>
  Two things the program leaves to pandas and that pandas does not settle the same way
  for every column and on every machine; they are parameters.

  \<open>column_sum\<close> is the sum of a numeric column or group: a floating-point sum on a
  float column, a sum wrapped to 64 bits on an integer column.

  \<open>argsort_desc\<close> is the sort behind \<open>sort_values(ascending=False)\<close> with pandas'
  default \<open>kind='quicksort'\<close>: the positions of the values, by descending value. Which
  of two equal values comes first is not specified.
\<close>

record pandas =
  column_sum :: "real list \<Rightarrow> real"
  argsort_desc :: "real list \<Rightarrow> nat list"

text \<open>
  Taking the elements at the positions of the sort. The positions pandas gives are
  positions of the list; the filter only keeps the function defined on any parameter.
\<close>

definition sort_values_desc :: "pandas \<Rightarrow> ('a \<Rightarrow> real) \<Rightarrow> 'a list \<Rightarrow> 'a list" where
  "sort_values_desc pd key xs =
     map (\<lambda>i. xs ! i) (filter (\<lambda>i. i < length xs) (argsort_desc pd (map key xs)))"

section \<open>Exploratory data analysis\<close>

text \<open>
  \<open>df.nlargest(n, 'view_count')\<close> with pandas' default \<open>keep='first'\<close>. When the frame
  has more than \<open>n\<close> rows, pandas negates the values and sorts them with a stable
  merge sort: the rows with a view count come by decreasing view count, equal view
  counts in the order of the frame. When the frame has at most \<open>n\<close> rows, pandas
  takes \<open>sort_values(ascending=False)\<close> instead. In both cases the rows without a
  view count follow, and the first \<open>n\<close> rows are the result.
\<close>

definition nlargest :: "pandas \<Rightarrow> nat \<Rightarrow> song list \<Rightarrow> song list" where
  "nlargest pd n rs =
     (let valued = filter (\<lambda>r. view_count r \<noteq> None) rs;
          nans = filter (\<lambda>r. view_count r = None) rs
      in if n \<ge> length rs
         then take n (sort_values_desc pd (\<lambda>r. the (view_count r)) valued @ nans)
         else take n (sort_key (\<lambda>r. - the (view_count r)) valued @ nans))"

definition top_songs :: "pandas \<Rightarrow> song list \<Rightarrow> song list" where
  "top_songs pd rs = nlargest pd 20 rs"

text \<open>
  The keys of \<open>df.groupby('channel')\<close>: the channels of the rows, each once, in
  ascending order (\<open>groupby\<close> sorts its keys and leaves rows without a key out),
  whatever the order of the rows.
\<close>

definition number_keys :: "song list \<Rightarrow> real list" where
  "number_keys rs = List.map_filter (\<lambda>r. case channel r of Number x \<Rightarrow> Some x | _ \<Rightarrow> None) rs"

definition str_keys :: "song list \<Rightarrow> string list" where
  "str_keys rs = List.map_filter (\<lambda>r. case channel r of Str s \<Rightarrow> Some s | _ \<Rightarrow> None) rs"

definition channel_names :: "song list \<Rightarrow> text_value list" where
  "channel_names rs =
     map Number (sort (remdups (number_keys rs))) @ map Str (sort (remdups (str_keys rs)))"

text \<open>
  \<open>df.groupby('channel').agg({'view_count': 'sum', 'title': 'count'})\<close>: one line per
  key, with the sum of the view counts that are there and the number of titles that
  are there.
\<close>

definition total_views :: "pandas \<Rightarrow> text_value \<Rightarrow> song list \<Rightarrow> real" where
  "total_views pd c rs =
     column_sum pd (List.map_filter view_count (filter (\<lambda>r. channel r = c) rs))"

definition number_of_songs :: "text_value \<Rightarrow> song list \<Rightarrow> nat" where
  "number_of_songs c rs = length (filter (\<lambda>r. channel r = c \<and> title r \<noteq> Missing) rs)"

type_synonym channel_line = "text_value \<times> real \<times> nat"

definition groupby_channel :: "pandas \<Rightarrow> song list \<Rightarrow> channel_line list" where
  "groupby_channel pd rs =
     map (\<lambda>c. (c, total_views pd c rs, number_of_songs c rs)) (channel_names rs)"

text \<open>\<open>.sort_values('view_count', ascending=False).head(10)\<close>.\<close>

definition top_channels :: "pandas \<Rightarrow> song list \<Rightarrow> channel_line list" where
  "top_channels pd rs = take 10 (sort_values_desc pd (\<lambda>l. fst (snd l)) (groupby_channel pd rs))"

text \<open>
  The labels the program prints and draws are cut with \<open>len\<close>, which raises
  \<open>TypeError\<close> on what is not a \<open>str\<close>.
\<close>

definition labels_error :: "text_value list \<Rightarrow> error option" where
  "labels_error ts = (if filter (\<lambda>t. \<not> is_str t) ts = [] then None else Some TypeError)"

text \<open>
  \<open>exploratory_data_analysis\<close>. On \<open>self.df = None\<close> the first \<open>len\<close> raises; on a
  frame without rows \<open>idxmax\<close> raises \<open>ValueError\<close>; selecting a column the frame
  does not have raises \<open>KeyError\<close>; \<open>len(row['title'])\<close> is taken of the top songs and
  \<open>len(channel)\<close> of the top channels.
\<close>

definition exploratory_data_analysis ::
  "pandas \<Rightarrow> dashboard \<Rightarrow> (dashboard \<times> song list \<times> channel_line list) outcome" where
  "exploratory_data_analysis pd d =
     (case df d of
        None \<Rightarrow> (Inl TypeError, [])
      | Some f \<Rightarrow>
          let rs = rows f;
              absent = filter (\<lambda>c. c \<notin> set (columns f)) [''title'', ''duration_string'']
          in if rs = [] then (Inl ValueError, [])
             else if absent \<noteq> [] then (Inl (KeyError absent), [])
             else
               (case labels_error (map title (top_songs pd rs)) of
                  Some e \<Rightarrow> (Inl e, [])
                | None \<Rightarrow>
               (case labels_error (map fst (top_channels pd rs)) of
                  Some e \<Rightarrow> (Inl e, [])
                | None \<Rightarrow>
               (case nlargest pd 1 rs of
                  [] \<Rightarrow> (Inl IndexError, [EdaCompleted])
                | r # _ \<Rightarrow>
                    (Inr (d\<lparr>insights := insights d @
                              [DatasetContains (length rs) (length (channel_names rs)),
                               TotalCombinedViews
                                 (column_sum pd (List.map_filter view_count rs) / 1000000000),
                               MostViewedSong (title r)]\<rparr>,
                          top_songs pd rs, top_channels pd rs),
                     [EdaCompleted])))))"

section \<open>Statistical analysis\<close>

text \<open>\<open>df[['view_count', 'duration', 'channel_follower_count']].dropna()\<close>.\<close>

definition correlation_data :: "song list \<Rightarrow> song list" where
  "correlation_data rs =
     filter (\<lambda>r. view_count r \<noteq> None \<and> duration r \<noteq> None \<and> channel_follower_count r \<noteq> None) rs"

text \<open>
  \<open>Series.corr\<close>, Pearson's coefficient of paired observations. With fewer than two
  observations, or when one of the two series is constant, numpy divides zero by zero
  and the result is NaN.
\<close>

definition mean :: "real list \<Rightarrow> real" where
  "mean xs = sum_list xs / real (length xs)"

definition corr :: "(real \<times> real) list \<Rightarrow> real option" where
  "corr ps =
     (let xs = map fst ps; ys = map snd ps;
          sxy = sum_list (map (\<lambda>(x, y). (x - mean xs) * (y - mean ys)) ps);
          sxx = sum_list (map (\<lambda>x. (x - mean xs)\<^sup>2) xs);
          syy = sum_list (map (\<lambda>y. (y - mean ys)\<^sup>2) ys)
      in if length ps < 2 \<or> sxx = 0 \<or> syy = 0 then None
         else Some (sxy / sqrt (sxx * syy)))"

definition duration_views_pairs :: "song list \<Rightarrow> (real \<times> real) list" where
  "duration_views_pairs cd = map (\<lambda>r. (the (duration r), the (view_count r))) cd"

definition followers_views_pairs :: "song list \<Rightarrow> (real \<times> real) list" where
  "followers_views_pairs cd = map (\<lambda>r. (the (channel_follower_count r), the (view_count r))) cd"

text \<open>The lines of the correlation analysis: none at all when no complete row is left.\<close>

definition correlation_analysis :: "song list \<Rightarrow> message list" where
  "correlation_analysis rs =
     (let cd = correlation_data rs in
      if length cd > 0 then
        [DurationVsViewsCorr (corr (duration_views_pairs cd))]
        @ (if filter (\<lambda>r. channel_follower_count r \<noteq> None) cd \<noteq> []
           then [FollowersVsViewsCorr (corr (followers_views_pairs cd))] else [])
      else [])"

text \<open>Comparisons of a float column with a number: false on NaN.\<close>

fun at_least :: "real option \<Rightarrow> real \<Rightarrow> bool" where
  "at_least None k = False"
| "at_least (Some v) k = (v \<ge> k)"

fun below :: "real option \<Rightarrow> real \<Rightarrow> bool" where
  "below None k = False"
| "below (Some v) k = (v < k)"

definition mega_hits :: "song list \<Rightarrow> nat" where
  "mega_hits rs = length (filter (\<lambda>r. at_least (view_count r) 1000000000) rs)"

definition popular :: "song list \<Rightarrow> nat" where
  "popular rs =
     length (filter (\<lambda>r. at_least (view_count r) 100000000 \<and> below (view_count r) 1000000000) rs)"

definition moderate :: "song list \<Rightarrow> nat" where
  "moderate rs = length (filter (\<lambda>r. below (view_count r) 100000000) rs)"

text \<open>Python's \<open>/\<close> on two \<open>int\<close>s raises on a zero divisor.\<close>

definition py_div :: "nat \<Rightarrow> nat \<Rightarrow> error + real" where
  "py_div a b = (if b = 0 then Inl ZeroDivisionError else Inr (real a / real b))"

definition percentage :: "nat \<Rightarrow> nat \<Rightarrow> error + real" where
  "percentage k n = (case py_div k n of Inl e \<Rightarrow> Inl e | Inr q \<Rightarrow> Inr (q * 100))"

definition mean_opt :: "real list \<Rightarrow> real option" where
  "mean_opt xs = (if xs = [] then None else Some (mean xs))"

text \<open>
  \<open>statistical_analysis\<close>. The distribution figures of an empty column are NaN and
  print as such; the first thing that can raise on a frame is the percentage of the
  first category.
\<close>

definition statistical_analysis :: "dashboard \<Rightarrow> dashboard outcome" where
  "statistical_analysis d =
     (case df d of
        None \<Rightarrow> (Inl TypeError, [])
      | Some f \<Rightarrow>
          let rs = rows f; n = length rs; corrs = correlation_analysis rs in
          (case percentage (mega_hits rs) n of
             Inl e \<Rightarrow> (Inl e, corrs)
           | Inr p1 \<Rightarrow>
          (case percentage (popular rs) n of
             Inl e \<Rightarrow> (Inl e, corrs @ [PopularityCategory ''Mega Hits'' (mega_hits rs) p1])
           | Inr p2 \<Rightarrow>
          (case percentage (moderate rs) n of
             Inl e \<Rightarrow> (Inl e, corrs @ [PopularityCategory ''Mega Hits'' (mega_hits rs) p1,
                                      PopularityCategory ''Popular'' (popular rs) p2])
           | Inr p3 \<Rightarrow>
               (Inr (d\<lparr>insights := insights d @
                         [MegaHitSongs (mega_hits rs),
                          AverageDuration (mean_opt (List.map_filter duration_minutes rs))]\<rparr>),
                corrs @ [PopularityCategory ''Mega Hits'' (mega_hits rs) p1,
                         PopularityCategory ''Popular'' (popular rs) p2,
                         PopularityCategory ''Moderate'' (moderate rs) p3,
                         StatisticsCompleted])))))"

section \<open>Visualizations\<close>

text \<open>
  What matplotlib, seaborn, numpy and the file system do while a chart is drawn and
  saved is not in the source. It is a parameter: \<open>lib c\<close> is the exception raised
  by the library calls of chart \<open>c\<close> on this data and this disk, if any.

  One chart: draw, save, count, announce. A raise leaves the chart uncounted.
\<close>

definition render :: "(chart \<Rightarrow> error option) \<Rightarrow> chart \<Rightarrow> nat \<Rightarrow> nat outcome" where
  "render lib c viz_count =
     (case lib c of
        Some e \<Rightarrow> (Inl e, [])
      | None \<Rightarrow> (Inr (viz_count + 1), [CreatedVisualization (viz_count + 1) c]))"

text \<open>
  The first chart reads \<open>top_15['title']\<close>, which raises \<open>KeyError\<close> when the frame
  has no such column, and labels its bars with \<open>len(title)\<close> of the fifteen most
  viewed songs.
\<close>

definition top_songs_chart ::
  "(chart \<Rightarrow> error option) \<Rightarrow> pandas \<Rightarrow> frame \<Rightarrow> nat \<Rightarrow> nat outcome" where
  "top_songs_chart lib pd f viz_count =
     (if ''title'' \<notin> set (columns f) then (Inl (KeyError [''title'']), [])
      else
        (case labels_error (map title (nlargest pd 15 (rows f))) of
           Some e \<Rightarrow> (Inl e, [])
         | None \<Rightarrow> render lib TopSongs viz_count))"

text \<open>
  The second chart:
  \<open>df.groupby('channel')['views_in_billions'].sum().sort_values(ascending=False).head(10)\<close>,
  with \<open>len(ch)\<close> of each of its channels.
\<close>

definition channel_views :: "pandas \<Rightarrow> song list \<Rightarrow> (text_value \<times> real) list" where
  "channel_views pd rs =
     take 10 (sort_values_desc pd snd
       (map (\<lambda>c. (c, column_sum pd
                        (List.map_filter views_in_billions (filter (\<lambda>r. channel r = c) rs))))
            (channel_names rs)))"

definition top_channels_chart ::
  "(chart \<Rightarrow> error option) \<Rightarrow> pandas \<Rightarrow> frame \<Rightarrow> nat \<Rightarrow> nat outcome" where
  "top_channels_chart lib pd f viz_count =
     (case labels_error (map fst (channel_views pd (rows f))) of
        Some e \<Rightarrow> (Inl e, [])
      | None \<Rightarrow> render lib TopChannels viz_count)"

definition followers_data :: "song list \<Rightarrow> song list" where
  "followers_data rs = filter (\<lambda>r. channel_follower_count r \<noteq> None) rs"

text \<open>
  The sixth chart is drawn only when more than 100 rows have a follower count.
\<close>

definition followers_chart :: "(chart \<Rightarrow> error option) \<Rightarrow> song list \<Rightarrow> nat \<Rightarrow> nat outcome" where
  "followers_chart lib rs viz_count =
     (if length (followers_data rs) > 100 then render lib FollowersVsViews viz_count
      else (Inr viz_count, []))"

text \<open>
  The eighth chart: \<open>df['channel'].value_counts().head(10)\<close>, the channels in the
  order of their first row, sorted by descending number of rows, with \<open>len(ch)\<close> of
  each.
\<close>

definition first_seen :: "'a list \<Rightarrow> 'a list" where
  "first_seen xs = rev (remdups (rev xs))"

definition channel_counts :: "pandas \<Rightarrow> song list \<Rightarrow> (text_value \<times> nat) list" where
  "channel_counts pd rs =
     take 10 (sort_values_desc pd (\<lambda>l. real (snd l))
       (map (\<lambda>c. (c, length (filter (\<lambda>r. channel r = c) rs)))
            (first_seen (filter (\<lambda>c. c \<noteq> Missing) (map channel rs)))))"

definition channel_counts_chart ::
  "(chart \<Rightarrow> error option) \<Rightarrow> pandas \<Rightarrow> frame \<Rightarrow> nat \<Rightarrow> nat outcome" where
  "channel_counts_chart lib pd f viz_count =
     (case labels_error (map fst (channel_counts pd (rows f))) of
        Some e \<Rightarrow> (Inl e, [])
      | None \<Rightarrow> render lib TopChannelsByCount viz_count)"

text \<open>
  \<open>create_visualizations\<close>: the nine blocks of the source one after the other, with
  no handler around any of them.
\<close>

definition create_visualizations ::
  "(chart \<Rightarrow> error option) \<Rightarrow> pandas \<Rightarrow> dashboard \<Rightarrow> dashboard outcome" where
  "create_visualizations lib pd d =
     (case df d of
        None \<Rightarrow> (Inl AttributeError, [])
      | Some f \<Rightarrow>
          and_then (top_songs_chart lib pd f 0) (\<lambda>v1.
          and_then (top_channels_chart lib pd f v1) (\<lambda>v2.
          and_then (render lib ViewDistribution v2) (\<lambda>v3.
          and_then (render lib DurationVsViews v3) (\<lambda>v4.
          and_then (render lib DurationDistribution v4) (\<lambda>v5.
          and_then (followers_chart lib (rows f) v5) (\<lambda>v6.
          and_then (render lib PopularityDistribution v6) (\<lambda>v7.
          and_then (channel_counts_chart lib pd f v7) (\<lambda>v8.
          and_then (render lib CorrelationHeatmap v8) (\<lambda>v9.
          (Inr d, [AllVisualizationsSaved v9])))))))))))"

text \<open>The charts a run has saved, read off the lines it printed.\<close>

fun created :: "message list \<Rightarrow> chart list" where
  "created [] = []"
| "created (CreatedVisualization k c # ms) = c # created ms"
| "created (m # ms) = created ms"

section \<open>Report\<close>

text \<open>
  \<open>generate_insights_report\<close>. \<open>nlargest(1, ...).iloc[0]\<close> raises on a frame without
  rows; opening the report file for writing may raise, which is the parameter
  \<open>write_error\<close>.
\<close>

definition generate_insights_report ::
  "error option \<Rightarrow> pandas \<Rightarrow> dashboard \<Rightarrow> dashboard outcome" where
  "generate_insights_report write_error pd d =
     (case df d of
        None \<Rightarrow> (Inl TypeError, [])
      | Some f \<Rightarrow>
          (case nlargest pd 1 (rows f) of
             [] \<Rightarrow> (Inl IndexError, [])
           | r # _ \<Rightarrow>
               (case write_error of
                  Some e \<Rightarrow> (Inl e, [])
                | None \<Rightarrow> (Inr d, [ReportSaved]))))"

section \<open>The pipeline\<close>

text \<open>What the surroundings of a run decide: the disk and the libraries.\<close>

record world =
  disk :: "string \<Rightarrow> disk_file"
  library :: pandas
  plotting :: "chart \<Rightarrow> error option"
  report_write :: "error option"

text \<open>The body of the \<open>try\<close> block of \<open>run_analysis\<close>.\<close>

definition stages :: "world \<Rightarrow> dashboard \<Rightarrow> dashboard outcome" where
  "stages w d =
     and_then (load_and_clean_data (disk w) d) (\<lambda>d1.
     and_then (exploratory_data_analysis (library w) d1) (\<lambda>(d2, _).
     and_then (statistical_analysis d2) (\<lambda>d3.
     and_then (create_visualizations (plotting w) (library w) d3) (\<lambda>d4.
     and_then (generate_insights_report (report_write w) (library w) d4) (\<lambda>d5.
     (Inr d5, [AnalysisCompleted]))))))"

text \<open>
  \<open>run_analysis\<close>: \<open>except Exception\<close> takes every exception of the stages, prints
  it and its traceback, and the method returns \<open>None\<close>.
\<close>

definition run_analysis :: "world \<Rightarrow> dashboard \<Rightarrow> unit outcome" where
  "run_analysis w d =
     (case stages w d of
        (Inr _, out) \<Rightarrow> (Inr (), out)
      | (Inl e, out) \<Rightarrow> (Inr (), out @ [ErrorDuringAnalysis e, Traceback]))"

text \<open>
  \<open>main\<close> and the exit status of the process: 0 when \<open>main\<close> returns, 1 when an
  exception leaves it.
\<close>

definition main :: "world \<Rightarrow> unit outcome" where
  "main w = run_analysis w (init ''youtube-top-100-songs-2025.csv'')"

definition exit_status :: "unit outcome \<Rightarrow> nat" where
  "exit_status r = (case fst r of Inr _ \<Rightarrow> 0 | Inl _ \<Rightarrow> 1)"

section \<open>The charts as a list\<close>

text \<open>
  For the statements about the visualizations: the charts \<open>create_visualizations\<close>
  goes through, in its order; what makes a chart raise (an expression of the source
  first, then the libraries); and the nine blocks read as one loop over that list
  (shown below to be what \<open>create_visualizations\<close> does).
\<close>

definition plan :: "song list \<Rightarrow> chart list" where
  "plan rs =
     [TopSongs, TopChannels, ViewDistribution, DurationVsViews, DurationDistribution]
     @ (if length (followers_data rs) > 100 then [FollowersVsViews] else [])
     @ [PopularityDistribution, TopChannelsByCount, CorrelationHeatmap]"

definition source_error :: "pandas \<Rightarrow> frame \<Rightarrow> chart \<Rightarrow> error option" where
  "source_error pd f c =
     (if c = TopSongs then
        (if ''title'' \<notin> set (columns f) then Some (KeyError [''title''])
         else labels_error (map title (nlargest pd 15 (rows f))))
      else if c = TopChannels then labels_error (map fst (channel_views pd (rows f)))
      else if c = TopChannelsByCount then labels_error (map fst (channel_counts pd (rows f)))
      else None)"

definition chart_error ::
  "(chart \<Rightarrow> error option) \<Rightarrow> pandas \<Rightarrow> frame \<Rightarrow> chart \<Rightarrow> error option" where
  "chart_error lib pd f c =
     (case source_error pd f c of Some e \<Rightarrow> Some e | None \<Rightarrow> lib c)"

fun render_all :: "(chart \<Rightarrow> error option) \<Rightarrow> chart list \<Rightarrow> nat \<Rightarrow> nat outcome" where
  "render_all err [] viz_count = (Inr viz_count, [])"
| "render_all err (c # cs) viz_count = and_then (render err c viz_count) (render_all err cs)"

section \<open>Concrete inputs\<close>

text \<open>
  Two instances of what pandas is asked for. Both sum exactly. The first sort keeps
  equal values in place; the second sorts upwards and turns the result round, so that
  equal values come out in reverse.
\<close>

definition exact_pandas :: pandas where
  "exact_pandas =
     \<lparr>column_sum = sum_list,
      argsort_desc = (\<lambda>vs. sort_key (\<lambda>i. - (vs ! i)) [0..<length vs])\<rparr>"

definition reversing_pandas :: pandas where
  "reversing_pandas =
     \<lparr>column_sum = sum_list,
      argsort_desc = (\<lambda>vs. rev (sort_key (\<lambda>i. vs ! i) [0..<length vs]))\<rparr>"

text \<open>A file of five records; the third has no view count.\<close>

definition sample_row :: "cell \<Rightarrow> csv_row" where
  "sample_row v =
     \<lparr>raw_title = Str ''Song'', raw_channel = Str ''Channel'', raw_view_count = v,
      raw_duration = Num 200, raw_duration_string = Some ''3:20'',
      raw_channel_follower_count = NA\<rparr>"

definition full_header :: "string list" where
  "full_header = [''title'', ''channel'', ''view_count'', ''duration'', ''duration_string'',
                  ''channel_follower_count'']"

definition five_rows :: csv where
  "five_rows =
     \<lparr>header = full_header,
      records = [sample_row (Num 10), sample_row (Num 20), sample_row NA,
                 sample_row (Num 30), sample_row (Num 40)]\<rparr>"

text \<open>Cleaned frames: four songs over the three popularity categories, and no song.\<close>

definition cleaned_row :: "real \<Rightarrow> song" where
  "cleaned_row v = derive (convert (sample_row (Num v)))"

definition four_songs :: dashboard where
  "four_songs =
     \<lparr>csv_file = ''songs.csv'',
      df = Some \<lparr>columns = full_header @ derived_columns,
                 rows = [cleaned_row 2000000000, cleaned_row 500000000,
                         cleaned_row 1000, cleaned_row 99999999]\<rparr>,
      insights = []\<rparr>"

definition no_songs :: dashboard where
  "no_songs =
     \<lparr>csv_file = ''songs.csv'',
      df = Some \<lparr>columns = full_header @ derived_columns, rows = []\<rparr>,
      insights = []\<rparr>"

text \<open>
  The subset of \<open>dropna\<close> (the required columns), and the columns the loader reads.
\<close>

definition required_columns :: "string list" where
  "required_columns = [''view_count'', ''duration'', ''channel'']"

definition read_columns :: "string list" where
  "read_columns = [''view_count'', ''duration'', ''channel_follower_count'', ''channel'']"

text \<open>A file that has every required column but no \<open>channel_follower_count\<close>.\<close>

definition no_followers_column :: csv where
  "no_followers_column =
     \<lparr>header = [''title'', ''channel'', ''view_count'', ''duration'', ''duration_string''],
      records = [sample_row (Num 10)]\<rparr>"

text \<open>A cleaned row that has a follower count.\<close>

definition followed_row :: song where
  "followed_row = (cleaned_row 10)\<lparr>channel_follower_count := Some 5\<rparr>"

text \<open>
  Two songs of two channels with the same view count, in the two orders; and a frame
  of twenty-two songs, all with the same view count, eleven of each channel.
\<close>

definition song_of :: "string \<Rightarrow> real \<Rightarrow> song" where
  "song_of c v = (cleaned_row v)\<lparr>channel := Str c\<rparr>"

definition a_then_b :: "song list" where
  "a_then_b = [song_of ''A'' 10, song_of ''B'' 10]"

definition b_then_a :: "song list" where
  "b_then_a = [song_of ''B'' 10, song_of ''A'' 10]"

definition many_songs :: dashboard where
  "many_songs =
     \<lparr>csv_file = ''songs.csv'',
      df = Some \<lparr>columns = full_header @ derived_columns,
                 rows = replicate 11 (song_of ''B'' 10) @ replicate 11 (song_of ''A'' 10)\<rparr>,
      insights = []\<rparr>"

text \<open>
  Libraries and a disk that never fail, and a disk that is full when one chart is
  saved.
\<close>

definition no_failure :: "chart \<Rightarrow> error option" where
  "no_failure c = None"

definition disk_full_at :: "chart \<Rightarrow> chart \<Rightarrow> error option" where
  "disk_full_at c' c = (if c = c' then Some OSError else None)"

text \<open>
  Surroundings of a run: no input file; the file of five records with given plotting
  libraries; and the frame the loader makes of that file.
\<close>

definition missing_file_world :: world where
  "missing_file_world =
     \<lparr>disk = (\<lambda>p. Absent), library = exact_pandas, plotting = no_failure,
      report_write = None\<rparr>"

definition five_rows_world :: "(chart \<Rightarrow> error option) \<Rightarrow> world" where
  "five_rows_world lib =
     \<lparr>disk = (\<lambda>p. Content five_rows), library = exact_pandas, plotting = lib,
      report_write = None\<rparr>"

definition five_rows_frame :: frame where
  "five_rows_frame =
     \<lparr>columns = full_header @ derived_columns,
      rows = [cleaned_row 10, cleaned_row 20, cleaned_row 30, cleaned_row 40]\<rparr>"

section \<open>Properties\<close>

subsection \<open>Loading and cleaning\<close>

lemma load_success_cases:
  assumes "load_and_clean_data fs d = (Inr d', out)"
  obtains c where "fs (csv_file d) = Content c"
    and "d' = d\<lparr>df := Some \<lparr>columns = header c @ derived_columns,
                              rows = add_derived_features (dropna (map convert (records c)))\<rparr>\<rparr>"
    and "out = [LoadedRecords (length (records c))]
               @ (if length (records c) - length (dropna (map convert (records c))) > 0
                  then [RemovedRows (length (records c) - length (dropna (map convert (records c))))]
                  else [])
               @ [CleaningCompleted]"
  using assms
  by (auto simp: load_and_clean_data_def read_csv_def Let_def split: disk_file.splits if_splits)

text \<open>
  C1. Whenever the loader returns, the cleaned frame has no more rows than the file has
  records, no row of it lacks \<open>view_count\<close>, \<open>duration\<close> or \<open>channel\<close>, its rows
  are as many as the records that have all three, and the removed count that is
  printed (when it is positive) is the number of records minus the number of rows.
\<close>

theorem load_and_clean_data_rows:
  assumes "load_and_clean_data fs d = (Inr d', out)"
  shows "\<exists>c f. fs (csv_file d) = Content c \<and> df d' = Some f
           \<and> length (rows f) \<le> length (records c)
           \<and> (\<forall>r \<in> set (rows f). view_count r \<noteq> None \<and> duration r \<noteq> None \<and> channel r \<noteq> Missing)
           \<and> length (rows f) = length (filter (\<lambda>r. complete (convert r)) (records c))
           \<and> out = [LoadedRecords (length (records c))]
                   @ (if length (records c) - length (rows f) > 0
                      then [RemovedRows (length (records c) - length (rows f))] else [])
                   @ [CleaningCompleted]"
proof -
  from assms obtain c where c: "fs (csv_file d) = Content c"
    and d': "d' = d\<lparr>df := Some \<lparr>columns = header c @ derived_columns,
                              rows = add_derived_features (dropna (map convert (records c)))\<rparr>\<rparr>"
    and out: "out = [LoadedRecords (length (records c))]
               @ (if length (records c) - length (dropna (map convert (records c))) > 0
                  then [RemovedRows (length (records c) - length (dropna (map convert (records c))))]
                  else [])
               @ [CleaningCompleted]"
    by (rule load_success_cases)
  let ?f = "\<lparr>columns = header c @ derived_columns,
             rows = add_derived_features (dropna (map convert (records c)))\<rparr>"
  have len: "length (rows ?f) = length (dropna (map convert (records c)))"
    by (simp add: add_derived_features_def)
  have le: "length (rows ?f) \<le> length (records c)"
    using length_filter_le [of complete "map convert (records c)"]
    by (simp add: add_derived_features_def dropna_def)
  have miss: "\<forall>r \<in> set (rows ?f). view_count r \<noteq> None \<and> duration r \<noteq> None \<and> channel r \<noteq> Missing"
    by (auto simp: add_derived_features_def dropna_def complete_def derive_def)
  have cnt: "length (rows ?f) = length (filter (\<lambda>r. complete (convert r)) (records c))"
    by (simp add: add_derived_features_def dropna_def filter_map comp_def)
  show ?thesis
    using c d' out le miss cnt len by (intro exI [of _ c] exI [of _ ?f]) simp
qed

text \<open>
  The scenario of the specification: five records, one without a view count, give four
  rows and a removed count of 1.
\<close>

theorem load_and_clean_data_rows_witness:
  "\<exists>d' f. load_and_clean_data (\<lambda>p. Content five_rows) (init ''songs.csv'')
            = (Inr d', [LoadedRecords 5, RemovedRows 1, CleaningCompleted])
         \<and> df d' = Some f \<and> length (records five_rows) = 5 \<and> length (rows f) = 4
         \<and> length (filter (\<lambda>r. raw_view_count r = NA) (records five_rows)) = 1"
proof -
  obtain d' out where run:
    "load_and_clean_data (\<lambda>p. Content five_rows) (init ''songs.csv'') = (Inr d', out)"
    by (simp add: load_and_clean_data_def read_csv_def five_rows_def full_header_def Let_def)
  from load_and_clean_data_rows [OF run]
  obtain c f where c: "Content five_rows = Content c" and f: "df d' = Some f"
    and cnt: "length (rows f) = length (filter (\<lambda>r. complete (convert r)) (records c))"
    and out: "out = [LoadedRecords (length (records c))]
                   @ (if length (records c) - length (rows f) > 0
                      then [RemovedRows (length (records c) - length (rows f))] else [])
                   @ [CleaningCompleted]"
    by blast
  from c have c': "c = five_rows" by simp
  have four: "length (rows f) = 4"
    unfolding cnt c' by (simp add: five_rows_def sample_row_def complete_def convert_def)
  have five: "length (records five_rows) = 5" by (simp add: five_rows_def)
  have "out = [LoadedRecords 5, RemovedRows 1, CleaningCompleted]"
    unfolding out c' four five by simp
  moreover have "length (filter (\<lambda>r. raw_view_count r = NA) (records five_rows)) = 1"
    by (simp add: five_rows_def sample_row_def)
  ultimately show ?thesis using run f four five by blast
qed

subsection \<open>Derived columns\<close>

text \<open>
  C6. The three derived columns are functions of \<open>duration\<close> and \<open>view_count\<close>
  alone (the duration over 60, the view count over 1e9 and over 1e6), the base columns
  are left as they are, and computing the derived columns a second time changes
  nothing, on a row and on a frame.
\<close>

theorem derived_columns_recomputed:
  "derive (derive r) = derive r
   \<and> add_derived_features (add_derived_features rs) = add_derived_features rs
   \<and> duration_minutes (derive r) = map_option (\<lambda>d. d / 60) (duration r)
   \<and> views_in_billions (derive r) = map_option (\<lambda>v. v / 1000000000) (view_count r)
   \<and> views_in_millions (derive r) = map_option (\<lambda>v. v / 1000000) (view_count r)
   \<and> duration (derive r) = duration r \<and> view_count (derive r) = view_count r"
proof -
  have idem: "derive (derive x) = derive x" for x
    by (simp add: derive_def)
  have "add_derived_features (add_derived_features rs) = add_derived_features rs"
    by (simp add: add_derived_features_def idem)
  then show ?thesis
    by (simp add: idem) (simp add: derive_def)
qed

subsection \<open>Popularity categories\<close>

lemma bucket_of_row:
  assumes "view_count r \<noteq> None"
  shows "(if at_least (view_count r) 1000000000 then 1 else 0)
         + (if at_least (view_count r) 100000000 \<and> below (view_count r) 1000000000 then 1 else 0)
         + (if below (view_count r) 100000000 then 1 else 0) = (1::nat)"
proof -
  from assms obtain v where v: "view_count r = Some v" by blast
  show ?thesis unfolding v by simp
qed

lemma buckets_partition:
  assumes "\<forall>r \<in> set rs. view_count r \<noteq> None"
  shows "mega_hits rs + popular rs + moderate rs = length rs"
  using assms
proof (induction rs)
  case Nil
  then show ?case by (simp add: mega_hits_def popular_def moderate_def)
next
  case (Cons r rs)
  then have ih: "mega_hits rs + popular rs + moderate rs = length rs"
    and r: "view_count r \<noteq> None" by simp_all
  have step: "mega_hits (r # rs) + popular (r # rs) + moderate (r # rs)
      = (mega_hits rs + popular rs + moderate rs)
        + ((if at_least (view_count r) 1000000000 then 1 else 0)
         + (if at_least (view_count r) 100000000 \<and> below (view_count r) 1000000000 then 1 else 0)
         + (if below (view_count r) 100000000 then 1 else 0))"
    by (simp add: mega_hits_def popular_def moderate_def)
  show ?case unfolding step ih bucket_of_row [OF r] by simp
qed

lemma percentage_nonzero: "n \<noteq> 0 \<Longrightarrow> percentage k n = Inr (real k / real n * 100)"
  by (simp add: percentage_def py_div_def)

lemma percentage_zero: "percentage k 0 = Inl ZeroDivisionError"
  by (simp add: percentage_def py_div_def)

lemma percentages_sum:
  assumes "a + b + c = n" "n \<noteq> 0"
  shows "real a / real n * 100 + real b / real n * 100 + real c / real n * 100 = 100"
proof -
  have "real a + real b + real c = real n" using assms(1) by (simp flip: of_nat_add)
  moreover have "real n \<noteq> 0" using assms(2) by simp
  ultimately show ?thesis by (simp add: field_simps)
qed

lemma statistical_analysis_nonempty:
  assumes "df d = Some f" "rows f \<noteq> []"
  shows "statistical_analysis d =
     (Inr (d\<lparr>insights := insights d @
               [MegaHitSongs (mega_hits (rows f)),
                AverageDuration (mean_opt (List.map_filter duration_minutes (rows f)))]\<rparr>),
      correlation_analysis (rows f)
      @ [PopularityCategory ''Mega Hits'' (mega_hits (rows f))
           (real (mega_hits (rows f)) / real (length (rows f)) * 100),
         PopularityCategory ''Popular'' (popular (rows f))
           (real (popular (rows f)) / real (length (rows f)) * 100),
         PopularityCategory ''Moderate'' (moderate (rows f))
           (real (moderate (rows f)) / real (length (rows f)) * 100),
         StatisticsCompleted])"
  using assms by (simp add: statistical_analysis_def Let_def percentage_nonzero)

lemma statistical_analysis_empty:
  assumes "df d = Some f" "rows f = []"
  shows "statistical_analysis d = (Inl ZeroDivisionError, [])"
  using assms
  by (simp add: statistical_analysis_def Let_def percentage_zero correlation_analysis_def
      correlation_data_def)

text \<open>
  C4. On a frame with at least one row and a view count in every row, the statistical
  analysis prints the three categories with counts that add up to the number of rows
  and with percentages that add up to 100 (percentages as exact numbers: the rounding
  of floating point and of the one-decimal print is left out).
\<close>

theorem popularity_buckets_partition:
  assumes "df d = Some f" and "\<forall>r \<in> set (rows f). view_count r \<noteq> None" and "rows f \<noteq> []"
  shows "\<exists>p1 p2 p3.
           snd (statistical_analysis d) =
             correlation_analysis (rows f)
             @ [PopularityCategory ''Mega Hits'' (mega_hits (rows f)) p1,
                PopularityCategory ''Popular'' (popular (rows f)) p2,
                PopularityCategory ''Moderate'' (moderate (rows f)) p3,
                StatisticsCompleted]
         \<and> mega_hits (rows f) + popular (rows f) + moderate (rows f) = length (rows f)
         \<and> p1 + p2 + p3 = 100"
proof -
  have part: "mega_hits (rows f) + popular (rows f) + moderate (rows f) = length (rows f)"
    by (rule buckets_partition [OF assms(2)])
  have n: "length (rows f) \<noteq> 0" using assms(3) by simp
  show ?thesis
    unfolding statistical_analysis_nonempty [OF assms(1) assms(3)]
    using part percentages_sum [OF part n] by simp
qed

theorem popularity_buckets_partition_witness:
  "snd (statistical_analysis four_songs) =
     [PopularityCategory ''Mega Hits'' 1 25, PopularityCategory ''Popular'' 1 25,
      PopularityCategory ''Moderate'' 2 50, StatisticsCompleted]
   \<and> mega_hits (rows (the (df four_songs))) + popular (rows (the (df four_songs)))
       + moderate (rows (the (df four_songs))) = 4"
proof -
  let ?f = "the (df four_songs)"
  have f: "df four_songs = Some ?f" by (simp add: four_songs_def)
  have vc: "\<forall>r \<in> set (rows ?f). view_count r \<noteq> None"
    by (simp add: four_songs_def cleaned_row_def derive_def convert_def sample_row_def)
  have ne: "rows ?f \<noteq> []" by (simp add: four_songs_def)
  have m: "mega_hits (rows ?f) = 1" and p: "popular (rows ?f) = 1" and o: "moderate (rows ?f) = 2"
    by (simp_all add: four_songs_def cleaned_row_def derive_def convert_def sample_row_def
        mega_hits_def popular_def moderate_def)
  have c: "correlation_analysis (rows ?f) = []"
    by (simp add: four_songs_def cleaned_row_def derive_def convert_def sample_row_def
        correlation_analysis_def correlation_data_def)
  have pc: "snd (statistical_analysis four_songs) =
     [PopularityCategory ''Mega Hits'' 1 25, PopularityCategory ''Popular'' 1 25,
      PopularityCategory ''Moderate'' 2 50, StatisticsCompleted]"
    unfolding statistical_analysis_nonempty [OF f ne] m p o c
    by (simp add: four_songs_def)
  from popularity_buckets_partition [OF f vc ne]
  have "mega_hits (rows ?f) + popular (rows ?f) + moderate (rows ?f) = length (rows ?f)"
    by blast
  then show ?thesis using pc by (simp add: four_songs_def)
qed

text \<open>
  C10. On a frame it has, the statistical analysis raises \<open>ZeroDivisionError\<close>
  exactly when the frame has no rows: the percentages divide by the number of rows.
\<close>

theorem statistical_analysis_needs_rows:
  assumes "df d = Some f"
  shows "fst (statistical_analysis d) = Inl ZeroDivisionError \<longleftrightarrow> rows f = []"
proof (cases "rows f = []")
  case True
  then show ?thesis using statistical_analysis_empty [OF assms] by simp
next
  case False
  then show ?thesis using statistical_analysis_nonempty [OF assms] by simp
qed

theorem statistical_analysis_needs_rows_witness:
  "fst (statistical_analysis no_songs) = Inl ZeroDivisionError
   \<and> rows (the (df no_songs)) = []
   \<and> fst (statistical_analysis four_songs) \<noteq> Inl ZeroDivisionError"
proof -
  have e: "df no_songs = Some (the (df no_songs))" by (simp add: no_songs_def)
  have f: "df four_songs = Some (the (df four_songs))" by (simp add: four_songs_def)
  show ?thesis
    using statistical_analysis_needs_rows [OF e] statistical_analysis_needs_rows [OF f]
    by (simp add: no_songs_def four_songs_def)
qed

subsection \<open>Errors of the loader\<close>

text \<open>
  C3, as stated, fails: the source defines no \<open>DataLoadError\<close> and no \<open>SchemaError\<close>,
  and the loader also fails on a readable file that has all three required columns,
  when \<open>channel_follower_count\<close> is not there.
\<close>

theorem loader_keyerror_with_required_columns:
  "set required_columns \<subseteq> set (header no_followers_column)
   \<and> load_and_clean_data (\<lambda>p. Content no_followers_column) (init ''songs.csv'')
       = (Inl (KeyError [''channel_follower_count'']), [LoadedRecords 1])"
  by (simp add: required_columns_def no_followers_column_def load_and_clean_data_def
      read_csv_def init_def)

lemma load_absent:
  "fs (csv_file d) = Absent \<Longrightarrow> load_and_clean_data fs d = (Inl FileNotFoundError, [])"
  by (simp add: load_and_clean_data_def read_csv_def)

lemma load_unreadable:
  "fs (csv_file d) = Unreadable \<Longrightarrow> load_and_clean_data fs d = (Inl PermissionError, [])"
  by (simp add: load_and_clean_data_def read_csv_def)

lemma load_content_keyerror:
  assumes "fs (csv_file d) = Content c" "\<not> set read_columns \<subseteq> set (header c)"
  shows "\<exists>k. k \<in> set read_columns \<and> k \<notin> set (header c)
             \<and> fst (load_and_clean_data fs d) = Inl (KeyError [k])"
  using assms
  by (auto simp: load_and_clean_data_def read_csv_def read_columns_def Let_def)

lemma load_content_ok:
  assumes "fs (csv_file d) = Content c" "set read_columns \<subseteq> set (header c)"
  shows "\<exists>d'. fst (load_and_clean_data fs d) = Inr d'"
  using assms
  by (auto simp: load_and_clean_data_def read_csv_def read_columns_def Let_def)

text \<open>
  C3, amended. The loader fails with Python's \<open>FileNotFoundError\<close> when the file does
  not exist and with \<open>PermissionError\<close> when it may not be opened; on a file that is read
  it fails with a \<open>KeyError\<close> naming a missing column exactly when one of
  \<open>view_count\<close>, \<open>duration\<close>, \<open>channel_follower_count\<close> and \<open>channel\<close> is absent
  from the header, and returns otherwise.
\<close>

theorem load_and_clean_data_errors:
  "(fs (csv_file d) = Absent \<longrightarrow> fst (load_and_clean_data fs d) = Inl FileNotFoundError)
   \<and> (fs (csv_file d) = Unreadable \<longrightarrow> fst (load_and_clean_data fs d) = Inl PermissionError)
   \<and> (fs (csv_file d) = Content c \<longrightarrow>
        ((\<exists>k. k \<in> set read_columns \<and> k \<notin> set (header c)
              \<and> fst (load_and_clean_data fs d) = Inl (KeyError [k]))
           \<longleftrightarrow> \<not> set read_columns \<subseteq> set (header c))
        \<and> ((\<exists>d'. fst (load_and_clean_data fs d) = Inr d')
           \<longleftrightarrow> set read_columns \<subseteq> set (header c)))"
proof (intro conjI impI)
  assume "fs (csv_file d) = Absent"
  then show "fst (load_and_clean_data fs d) = Inl FileNotFoundError"
    by (simp add: load_absent)
next
  assume "fs (csv_file d) = Unreadable"
  then show "fst (load_and_clean_data fs d) = Inl PermissionError"
    by (simp add: load_unreadable)
next
  assume c: "fs (csv_file d) = Content c"
  show "(\<exists>k. k \<in> set read_columns \<and> k \<notin> set (header c)
              \<and> fst (load_and_clean_data fs d) = Inl (KeyError [k]))
           \<longleftrightarrow> \<not> set read_columns \<subseteq> set (header c)"
    using load_content_keyerror [of fs d c] c by blast
next
  assume c: "fs (csv_file d) = Content c"
  show "(\<exists>d'. fst (load_and_clean_data fs d) = Inr d') \<longleftrightarrow> set read_columns \<subseteq> set (header c)"
  proof
    assume "\<exists>d'. fst (load_and_clean_data fs d) = Inr d'"
    then show "set read_columns \<subseteq> set (header c)"
      using load_content_keyerror [of fs d c] c
      by (cases "set read_columns \<subseteq> set (header c)") auto
  next
    assume "set read_columns \<subseteq> set (header c)"
    then show "\<exists>d'. fst (load_and_clean_data fs d) = Inr d'"
      using load_content_ok [of fs d c] c by blast
  qed
qed

theorem load_and_clean_data_errors_witness:
  "fst (load_and_clean_data (\<lambda>p. Absent) (init ''songs.csv'')) = Inl FileNotFoundError
   \<and> fst (load_and_clean_data (\<lambda>p. Unreadable) (init ''songs.csv'')) = Inl PermissionError
   \<and> \<not> set read_columns \<subseteq> set (header no_followers_column)
   \<and> (\<exists>k. fst (load_and_clean_data (\<lambda>p. Content no_followers_column) (init ''songs.csv''))
           = Inl (KeyError [k]))
   \<and> set read_columns \<subseteq> set (header five_rows)
   \<and> (\<exists>d'. fst (load_and_clean_data (\<lambda>p. Content five_rows) (init ''songs.csv'')) = Inr d')"
proof -
  have a: "\<not> set read_columns \<subseteq> set (header no_followers_column)"
    by (simp add: read_columns_def no_followers_column_def)
  have b: "set read_columns \<subseteq> set (header five_rows)"
    by (simp add: read_columns_def five_rows_def full_header_def)
  let ?d = "init ''songs.csv''"
  from load_and_clean_data_errors [of "\<lambda>p. Absent" ?d five_rows]
  have c: "fst (load_and_clean_data (\<lambda>p. Absent) ?d) = Inl FileNotFoundError" by simp
  from load_and_clean_data_errors [of "\<lambda>p. Unreadable" ?d five_rows]
  have d: "fst (load_and_clean_data (\<lambda>p. Unreadable) ?d) = Inl PermissionError" by simp
  from load_and_clean_data_errors [of "\<lambda>p. Content no_followers_column" ?d no_followers_column]
  have "(\<exists>k. k \<in> set read_columns \<and> k \<notin> set (header no_followers_column)
              \<and> fst (load_and_clean_data (\<lambda>p. Content no_followers_column) ?d) = Inl (KeyError [k]))
           \<longleftrightarrow> \<not> set read_columns \<subseteq> set (header no_followers_column)"
    by simp
  with a have e: "\<exists>k. fst (load_and_clean_data (\<lambda>p. Content no_followers_column) ?d)
           = Inl (KeyError [k])" by blast
  from load_and_clean_data_errors [of "\<lambda>p. Content five_rows" ?d five_rows]
  have "(\<exists>d'. fst (load_and_clean_data (\<lambda>p. Content five_rows) ?d) = Inr d')
           \<longleftrightarrow> set read_columns \<subseteq> set (header five_rows)"
    by simp
  with b have f: "\<exists>d'. fst (load_and_clean_data (\<lambda>p. Content five_rows) ?d) = Inr d'"
    by blast
  from a b c d e f show ?thesis by (intro conjI)
qed

subsection \<open>Correlation analysis\<close>

lemma corr_single: "corr [p] = None"
  by (simp add: corr_def)

text \<open>
  C7, as stated, fails: with no complete row left nothing is reported at all, and with
  a single one the coefficient is computed all the same (and printed as NaN).
\<close>

theorem correlation_not_reported_undefined:
  "length (correlation_data []) < 2 \<and> correlation_analysis [] = []
   \<and> length (correlation_data [followed_row]) < 2
   \<and> correlation_analysis [followed_row]
       = [DurationVsViewsCorr (corr [(200, 10)]), FollowersVsViewsCorr (corr [(5, 10)])]"
  by (simp add: correlation_analysis_def correlation_data_def followed_row_def cleaned_row_def
      derive_def convert_def sample_row_def duration_views_pairs_def followers_views_pairs_def)

lemma correlation_data_followers:
  "filter (\<lambda>r. channel_follower_count r \<noteq> None) (correlation_data rs) = correlation_data rs"
  by (simp add: correlation_data_def)

lemma correlation_analysis_lines:
  "correlation_analysis rs =
     (if correlation_data rs = [] then []
      else [DurationVsViewsCorr (corr (duration_views_pairs (correlation_data rs))),
            FollowersVsViewsCorr (corr (followers_views_pairs (correlation_data rs)))])"
  unfolding correlation_analysis_def Let_def correlation_data_followers by simp

text \<open>
  C7, amended. The correlations are computed over the rows that have a view count, a
  duration and a follower count. When no such row is left, no correlation line is
  printed; when at least one is left, both coefficients are computed by the library
  and printed, and for a single row they are NaN.
\<close>

theorem correlation_analysis_guard:
  "set (correlation_data rs)
     = {r \<in> set rs. view_count r \<noteq> None \<and> duration r \<noteq> None \<and> channel_follower_count r \<noteq> None}
   \<and> (correlation_data rs = [] \<longrightarrow> correlation_analysis rs = [])
   \<and> (correlation_data rs \<noteq> [] \<longrightarrow>
        correlation_analysis rs
          = [DurationVsViewsCorr (corr (duration_views_pairs (correlation_data rs))),
             FollowersVsViewsCorr (corr (followers_views_pairs (correlation_data rs)))])
   \<and> (length (correlation_data rs) = 1 \<longrightarrow>
        correlation_analysis rs = [DurationVsViewsCorr None, FollowersVsViewsCorr None])"
proof (intro conjI impI)
  show "set (correlation_data rs)
     = {r \<in> set rs. view_count r \<noteq> None \<and> duration r \<noteq> None \<and> channel_follower_count r \<noteq> None}"
    by (simp add: correlation_data_def)
next
  assume "correlation_data rs = []"
  then show "correlation_analysis rs = []"
    by (simp add: correlation_analysis_lines)
next
  assume "correlation_data rs \<noteq> []"
  then show "correlation_analysis rs
          = [DurationVsViewsCorr (corr (duration_views_pairs (correlation_data rs))),
             FollowersVsViewsCorr (corr (followers_views_pairs (correlation_data rs)))]"
    by (simp add: correlation_analysis_lines)
next
  assume one: "length (correlation_data rs) = 1"
  then obtain r where r: "correlation_data rs = [r]"
    by (cases "correlation_data rs") auto
  show "correlation_analysis rs = [DurationVsViewsCorr None, FollowersVsViewsCorr None]"
    by (simp add: correlation_analysis_lines r duration_views_pairs_def
        followers_views_pairs_def corr_single)
qed

theorem correlation_analysis_guard_witness:
  "correlation_data [] = [] \<and> correlation_analysis [] = []
   \<and> correlation_data [followed_row] \<noteq> [] \<and> length (correlation_data [followed_row]) = 1
   \<and> correlation_analysis [followed_row] = [DurationVsViewsCorr None, FollowersVsViewsCorr None]"
proof -
  have a: "correlation_data [] = []" by (simp add: correlation_data_def)
  have b: "length (correlation_data [followed_row]) = 1"
    by (simp add: correlation_data_def followed_row_def cleaned_row_def derive_def convert_def
        sample_row_def)
  then have c: "correlation_data [followed_row] \<noteq> []" by auto
  from correlation_analysis_guard [of "[]"] a
  have d: "correlation_analysis [] = []" by blast
  from correlation_analysis_guard [of "[followed_row]"] b
  have e: "correlation_analysis [followed_row] = [DurationVsViewsCorr None, FollowersVsViewsCorr None]"
    by blast
  show ?thesis using a b c d e by simp
qed

subsection \<open>Rankings\<close>

lemma set_sort_values_desc: "set (sort_values_desc pd key xs) \<subseteq> set xs"
  by (auto simp: sort_values_desc_def)

lemma set_nlargest: "set (nlargest pd n rs) \<subseteq> set rs"
proof -
  have "set (sort_values_desc pd (\<lambda>r. the (view_count r)) (filter (\<lambda>r. view_count r \<noteq> None) rs))
          \<subseteq> set rs"
    using set_sort_values_desc [of pd _ "filter (\<lambda>r. view_count r \<noteq> None) rs"] by auto
  then show ?thesis
    by (auto simp: nlargest_def Let_def dest!: in_set_takeD)
qed

lemma nlargest_fast:
  "n < length rs \<Longrightarrow>
     nlargest pd n rs =
       take n (sort_key (\<lambda>r. - the (view_count r)) (filter (\<lambda>r. view_count r \<noteq> None) rs)
               @ filter (\<lambda>r. view_count r = None) rs)"
  unfolding nlargest_def Let_def by (simp only: not_le [symmetric] if_False)

lemma nlargest_stable:
  assumes "n < length rs"
  shows "prefix (filter (\<lambda>r. view_count r = Some k) (nlargest pd n rs))
                (filter (\<lambda>r. view_count r = Some k) rs)"
proof -
  let ?P = "\<lambda>r. view_count r = Some k"
  let ?f = "\<lambda>r. - the (view_count r)"
  let ?F = "filter (\<lambda>r. view_count r \<noteq> None) rs"
  let ?N = "filter (\<lambda>r. view_count r = None) rs"
  have P_on_F: "?P r \<longleftrightarrow> ?f r = - k" if "r \<in> set ?F" for r
    using that by auto
  have "filter ?P (sort_key ?f ?F) = filter (\<lambda>r. ?f r = - k) (sort_key ?f ?F)"
    by (rule filter_cong [OF refl]) (simp only: set_sort P_on_F)
  also have "\<dots> = filter (\<lambda>r. ?f r = - k) ?F"
    by (rule sort_key_stable)
  also have "\<dots> = filter ?P ?F"
    by (rule filter_cong [OF refl]) (simp only: P_on_F)
  also have "\<dots> = filter ?P rs"
    by (induction rs) auto
  finally have sorted_part: "filter ?P (sort_key ?f ?F) = filter ?P rs" .
  have nan_part: "filter ?P ?N = []"
    by (auto simp: filter_empty_conv)
  have "prefix (filter ?P (take n (sort_key ?f ?F @ ?N))) (filter ?P (sort_key ?f ?F @ ?N))"
    by (rule filter_mono_prefix [OF take_is_prefix])
  then show ?thesis
    unfolding nlargest_fast [OF assms]
    by (simp only: filter_append sorted_part nan_part append_Nil2)
qed

lemma nlargest_nonempty:
  assumes "n < length rs" "0 < n"
  shows "nlargest pd n rs \<noteq> []"
proof -
  let ?xs = "sort_key (\<lambda>r. - the (view_count r)) (filter (\<lambda>r. view_count r \<noteq> None) rs)
               @ filter (\<lambda>r. view_count r = None) rs"
  have "length ?xs = length rs"
    using sum_length_filter_compl [of "\<lambda>r. view_count r \<noteq> None" rs] by simp
  with assms have "length (take n ?xs) = n"
    by simp
  with assms(2) have "take n ?xs \<noteq> []"
    by (metis length_0_conv less_numeral_extra(3))
  then show ?thesis
    unfolding nlargest_fast [OF assms(1)] .
qed

lemma set_number_keys: "set (number_keys rs) = {x. Number x \<in> channel ` set rs}"
proof (induction rs)
  case Nil
  show ?case by (simp add: number_keys_def)
next
  case (Cons r rs)
  then show ?case
    by (cases "channel r") (auto simp: number_keys_def)
qed

lemma set_str_keys: "set (str_keys rs) = {s. Str s \<in> channel ` set rs}"
proof (induction rs)
  case Nil
  show ?case by (simp add: str_keys_def)
next
  case (Cons r rs)
  then show ?case
    by (cases "channel r") (auto simp: str_keys_def)
qed

lemma channel_names_of_set:
  "channel_names rs =
     map Number (sorted_list_of_set {x. Number x \<in> channel ` set rs})
     @ map Str (sorted_list_of_set {s. Str s \<in> channel ` set rs})"
  by (simp add: channel_names_def sorted_list_of_set_sort_remdups [symmetric]
      set_number_keys set_str_keys)

lemma channel_names_permuted: "mset rs' = mset rs \<Longrightarrow> channel_names rs' = channel_names rs"
  using mset_eq_setD [of rs' rs] by (simp add: channel_names_of_set)

lemma set_channel_names: "set (channel_names rs) = channel ` set rs - {Missing}"
proof -
  have "c \<in> set (channel_names rs) \<longleftrightarrow> c \<in> channel ` set rs \<and> c \<noteq> Missing" for c
    by (cases c) (auto simp: channel_names_def set_number_keys set_str_keys)
  then show ?thesis by blast
qed

lemma groupby_channel_names: "map fst (groupby_channel pd rs) = channel_names rs"
  by (simp add: groupby_channel_def comp_def)

lemma top_channels_names: "set (map fst (top_channels pd rs)) \<subseteq> channel ` set rs"
proof -
  have "set (top_channels pd rs) \<subseteq> set (groupby_channel pd rs)"
    unfolding top_channels_def
    using set_sort_values_desc [of pd "\<lambda>l. fst (snd l)" "groupby_channel pd rs"]
    by (auto dest!: in_set_takeD)
  then have "set (map fst (top_channels pd rs)) \<subseteq> set (map fst (groupby_channel pd rs))"
    by auto
  then show ?thesis
    unfolding groupby_channel_names set_channel_names by blast
qed

lemma labels_error_str: "(\<forall>t \<in> set ts. is_str t) \<Longrightarrow> labels_error ts = None"
  by (simp add: labels_error_def filter_empty_conv)

lemma labels_error_None: "labels_error ts = None \<longleftrightarrow> (\<forall>t \<in> set ts. is_str t)"
  by (simp add: labels_error_def filter_empty_conv)

lemma eda_ok:
  assumes "df d = Some f" and "1 < length (rows f)"
    and "''title'' \<in> set (columns f)" and "''duration_string'' \<in> set (columns f)"
    and "\<forall>r \<in> set (rows f). is_str (title r) \<and> is_str (channel r)"
  shows "\<exists>d'. exploratory_data_analysis pd d
                 = (Inr (d', top_songs pd (rows f), top_channels pd (rows f)), [EdaCompleted])
              \<and> df d' = Some f"
proof -
  have ne: "rows f \<noteq> []" using assms(2) by auto
  have t: "labels_error (map title (top_songs pd (rows f))) = None"
    using set_nlargest [of pd 20 "rows f"] assms(5)
    by (intro labels_error_str) (auto simp: top_songs_def)
  have c: "labels_error (map fst (top_channels pd (rows f))) = None"
    using top_channels_names [of pd "rows f"] assms(5)
    by (intro labels_error_str) auto
  have "Suc 0 < length (rows f)" using assms(2) by simp
  from nlargest_nonempty [OF this, of pd]
  obtain r rest where n: "nlargest pd (Suc 0) (rows f) = r # rest"
    by (cases "nlargest pd (Suc 0) (rows f)") auto
  show ?thesis
    by (simp add: exploratory_data_analysis_def assms(1,3,4) ne t c n Let_def)
qed

lemma eda_returns:
  assumes "df d = Some f" "fst (exploratory_data_analysis pd d) = Inr (d', ts, tc)"
  shows "ts = top_songs pd (rows f) \<and> tc = top_channels pd (rows f)"
  using assms
  by (auto simp: exploratory_data_analysis_def Let_def split: if_splits list.splits option.splits)

lemma song_of_fields [simp]:
  "title (song_of c v) = Str ''Song''"
  "channel (song_of c v) = Str c"
  "view_count (song_of c v) = Some v"
  by (simp_all add: song_of_def cleaned_row_def derive_def convert_def sample_row_def)

lemma groupby_a_then_b:
  "groupby_channel pd a_then_b
     = [(Str ''A'', column_sum pd [10], 1), (Str ''B'', column_sum pd [10], 1)]"
  by (simp add: groupby_channel_def channel_names_def number_keys_def str_keys_def
      total_views_def number_of_songs_def a_then_b_def List.map_filter_simps)

lemma groupby_b_then_a:
  "groupby_channel pd b_then_a
     = [(Str ''A'', column_sum pd [10], 1), (Str ''B'', column_sum pd [10], 1)]"
  by (simp add: groupby_channel_def channel_names_def number_keys_def str_keys_def
      total_views_def number_of_songs_def b_then_a_def List.map_filter_simps)

lemma upt_two: "[0..<2] = [0, Suc 0]"
  by (simp add: numeral_2_eq_2)

text \<open>
  C5, as stated, fails for the ranking of channels. Two datasets hold the same two songs
  with the same view count, one of channel \<open>A\<close> and one of channel \<open>B\<close>, in the two
  orders. Both give the same table of channels, \<open>A\<close> then \<open>B\<close> with equal sums, and
  so the same ranking whatever pandas does: it cannot follow the order of both
  datasets. With a sort that keeps equal sums in place the ranking is \<open>A\<close>, \<open>B\<close>
  where \<open>B\<close> comes first in the dataset; with one that reverses them it is \<open>B\<close>,
  \<open>A\<close> where \<open>A\<close> comes first. On so small a dataset the ranking of songs is left
  to the same sort: with the reversing one the song of \<open>B\<close> comes first although
  it is the second row.
\<close>

theorem channel_ranking_ignores_row_order:
  "map channel a_then_b = [Str ''A'', Str ''B''] \<and> map channel b_then_a = [Str ''B'', Str ''A'']
   \<and> map view_count a_then_b = [Some 10, Some 10] \<and> map view_count b_then_a = [Some 10, Some 10]
   \<and> (\<forall>pd. groupby_channel pd a_then_b
            = [(Str ''A'', column_sum pd [10], 1), (Str ''B'', column_sum pd [10], 1)])
   \<and> (\<forall>pd. top_channels pd a_then_b = top_channels pd b_then_a)
   \<and> map fst (top_channels exact_pandas b_then_a) = [Str ''A'', Str ''B'']
   \<and> map fst (top_channels reversing_pandas a_then_b) = [Str ''B'', Str ''A'']
   \<and> map channel (top_songs reversing_pandas a_then_b) = [Str ''B'', Str ''A'']"
proof -
  have rows: "map channel a_then_b = [Str ''A'', Str ''B'']"
    "map channel b_then_a = [Str ''B'', Str ''A'']"
    "map view_count a_then_b = [Some 10, Some 10]" "map view_count b_then_a = [Some 10, Some 10]"
    by (simp_all add: a_then_b_def b_then_a_def)
  have same: "top_channels pd a_then_b = top_channels pd b_then_a" for pd
    by (simp add: top_channels_def groupby_a_then_b groupby_b_then_a)
  have stable: "map fst (top_channels exact_pandas b_then_a) = [Str ''A'', Str ''B'']"
    by (simp add: top_channels_def groupby_b_then_a sort_values_desc_def exact_pandas_def upt_two)
  have reversed: "map fst (top_channels reversing_pandas a_then_b) = [Str ''B'', Str ''A'']"
    by (simp add: top_channels_def groupby_a_then_b sort_values_desc_def reversing_pandas_def
        upt_two)
  have songs: "map channel (top_songs reversing_pandas a_then_b) = [Str ''B'', Str ''A'']"
    by (simp add: top_songs_def nlargest_def a_then_b_def sort_values_desc_def
        reversing_pandas_def upt_two)
  from rows groupby_a_then_b same stable reversed songs show ?thesis by (intro conjI allI)
qed

text \<open>
  C5, amended. When the dataset has more than twenty rows, the songs of one view count
  are in the ranking of songs in the order of the dataset (they are its first such
  songs). The ranking of channels is the first ten lines of the table of channels as
  pandas' default sort leaves it; that table lists the channels in ascending order,
  and a dataset with the same rows in another order has the same list, so the place
  of a channel among channels of equal sums does not come from the order of the
  dataset.
\<close>

theorem rankings_tie_order:
  assumes "df d = Some f" and "fst (exploratory_data_analysis pd d) = Inr (d', ts, tc)"
  shows "(20 < length (rows f) \<longrightarrow>
            prefix (filter (\<lambda>r. view_count r = Some k) ts)
                   (filter (\<lambda>r. view_count r = Some k) (rows f)))
       \<and> tc = take 10 (sort_values_desc pd (\<lambda>l. fst (snd l)) (groupby_channel pd (rows f)))
       \<and> map fst (groupby_channel pd (rows f))
           = map Number (sort (remdups (number_keys (rows f))))
             @ map Str (sort (remdups (str_keys (rows f))))
       \<and> (mset rs' = mset (rows f) \<longrightarrow>
            map fst (groupby_channel pd rs') = map fst (groupby_channel pd (rows f)))"
proof -
  from eda_returns [OF assms] have ts: "ts = top_songs pd (rows f)"
    and tc: "tc = top_channels pd (rows f)" by simp_all
  have a: "20 < length (rows f) \<longrightarrow>
            prefix (filter (\<lambda>r. view_count r = Some k) ts)
                   (filter (\<lambda>r. view_count r = Some k) (rows f))"
    unfolding ts top_songs_def using nlargest_stable [of 20 "rows f" k pd] by blast
  have b: "tc = take 10 (sort_values_desc pd (\<lambda>l. fst (snd l)) (groupby_channel pd (rows f)))"
    unfolding tc by (simp add: top_channels_def)
  have c: "map fst (groupby_channel pd (rows f))
           = map Number (sort (remdups (number_keys (rows f))))
             @ map Str (sort (remdups (str_keys (rows f))))"
    by (simp add: groupby_channel_names channel_names_def)
  have e: "mset rs' = mset (rows f) \<longrightarrow>
            map fst (groupby_channel pd rs') = map fst (groupby_channel pd (rows f))"
    using channel_names_permuted [of rs' "rows f"] by (simp add: groupby_channel_names)
  from a b c e show ?thesis by (intro conjI)
qed

theorem rankings_tie_order_witness:
  "20 < length (rows (the (df many_songs)))
   \<and> mset (rev (rows (the (df many_songs)))) = mset (rows (the (df many_songs)))
   \<and> (\<exists>d' ts tc.
         fst (exploratory_data_analysis exact_pandas many_songs) = Inr (d', ts, tc)
         \<and> prefix (filter (\<lambda>r. view_count r = Some 10) ts)
                  (filter (\<lambda>r. view_count r = Some 10) (rows (the (df many_songs))))
         \<and> map fst (groupby_channel exact_pandas (rev (rows (the (df many_songs)))))
             = map fst (groupby_channel exact_pandas (rows (the (df many_songs)))))"
proof -
  let ?f = "the (df many_songs)"
  have f: "df many_songs = Some ?f" by (simp add: many_songs_def)
  have len: "20 < length (rows ?f)" by (simp add: many_songs_def)
  then have one: "1 < length (rows ?f)" by simp
  have cols: "''title'' \<in> set (columns ?f)" "''duration_string'' \<in> set (columns ?f)"
    by (simp_all add: many_songs_def full_header_def)
  have strs: "\<forall>r \<in> set (rows ?f). is_str (title r) \<and> is_str (channel r)"
    by (auto simp: many_songs_def)
  from eda_ok [OF f one cols strs, of exact_pandas]
  have run: "fst (exploratory_data_analysis exact_pandas many_songs)
      = Inr (fst (projr (fst (exploratory_data_analysis exact_pandas many_songs))),
             top_songs exact_pandas (rows ?f), top_channels exact_pandas (rows ?f))"
    by auto
  have perm: "mset (rev (rows ?f)) = mset (rows ?f)" by simp
  from rankings_tie_order [OF f run, of 10 "rev (rows ?f)"] len perm
  have "prefix (filter (\<lambda>r. view_count r = Some 10) (top_songs exact_pandas (rows ?f)))
                  (filter (\<lambda>r. view_count r = Some 10) (rows ?f))"
    and "map fst (groupby_channel exact_pandas (rev (rows ?f)))
             = map fst (groupby_channel exact_pandas (rows ?f))"
    by blast+
  with run len perm show ?thesis by blast
qed

subsection \<open>Visualizations\<close>

lemma and_then_Inl [simp]: "and_then (Inl e, out) f = (Inl e, out)"
  by (simp add: and_then_def)

lemma and_then_Inr [simp]: "and_then (Inr x, out) f = (fst (f x), out @ snd (f x))"
  by (simp add: and_then_def split: prod.splits)

lemma and_then_assoc: "and_then (and_then m f) g = and_then m (\<lambda>x. and_then (f x) g)"
  by (cases m; cases "fst m") (auto simp: and_then_def split: prod.splits sum.splits)

lemma and_then_pure: "and_then (Inr x, []) f = f x"
  by simp

lemma and_then_return: "and_then m (\<lambda>v. (Inr v, [])) = m"
  by (cases m; cases "fst m") (auto simp: and_then_def)

lemma render_all_append:
  "render_all err (cs @ cs') v = and_then (render_all err cs v) (render_all err cs')"
proof (induction cs arbitrary: v)
  case Nil
  show ?case by simp
next
  case (Cons c cs)
  have "render_all err (cs @ cs') = (\<lambda>x. and_then (render_all err cs x) (render_all err cs'))"
    by (rule ext) (rule Cons.IH)
  then show ?case by (simp add: and_then_assoc)
qed

lemma top_songs_chart_render:
  "top_songs_chart lib pd f v = render (chart_error lib pd f) TopSongs v"
  by (simp add: top_songs_chart_def render_def chart_error_def source_error_def
      split: option.splits)

lemma top_channels_chart_render:
  "top_channels_chart lib pd f v = render (chart_error lib pd f) TopChannels v"
  by (simp add: top_channels_chart_def render_def chart_error_def source_error_def
      split: option.splits)

lemma channel_counts_chart_render:
  "channel_counts_chart lib pd f v = render (chart_error lib pd f) TopChannelsByCount v"
  by (simp add: channel_counts_chart_def render_def chart_error_def source_error_def
      split: option.splits)

lemma render_chart_error:
  "c \<noteq> TopSongs \<Longrightarrow> c \<noteq> TopChannels \<Longrightarrow> c \<noteq> TopChannelsByCount \<Longrightarrow>
     render lib c v = render (chart_error lib pd f) c v"
  by (simp add: render_def chart_error_def source_error_def)

lemma followers_chart_render_all:
  "followers_chart lib (rows f) v =
     render_all (chart_error lib pd f)
       (if length (followers_data (rows f)) > 100 then [FollowersVsViews] else []) v"
proof -
  have "render_all (chart_error lib pd f) [] = (\<lambda>v. (Inr v, []))"
    by (rule ext) simp
  then show ?thesis
    by (simp add: followers_chart_def render_chart_error [of FollowersVsViews lib _ pd f]
        and_then_return)
qed

lemma create_visualizations_plan:
  assumes "df d = Some f"
  shows "create_visualizations lib pd d =
           and_then (render_all (chart_error lib pd f) (plan (rows f)) 0)
                    (\<lambda>v. (Inr d, [AllVisualizationsSaved v]))"
proof -
  let ?err = "chart_error lib pd f"
  have r: "render lib c v = render ?err c v"
    if "c \<noteq> TopSongs" "c \<noteq> TopChannels" "c \<noteq> TopChannelsByCount" for c v
    using that by (rule render_chart_error)
  show ?thesis
    unfolding create_visualizations_def plan_def render_all_append
    by (simp only: assms option.case top_songs_chart_render top_channels_chart_render
        channel_counts_chart_render followers_chart_render_all [of lib f _ pd]
        r chart.distinct not_False_eq_True render_all.simps and_then_assoc and_then_pure
        append_Cons append_Nil)
qed

lemma created_append [simp]: "created (ms @ ms') = created ms @ created ms'"
  by (induction ms rule: created.induct) simp_all

lemma render_all_created:
  "created (snd (render_all err cs v)) = takeWhile (\<lambda>c. err c = None) cs"
  by (induction cs arbitrary: v) (auto simp: render_def split: option.splits)

lemma render_all_result:
  "fst (render_all err cs v) =
     (case List.map_filter err cs of [] \<Rightarrow> Inr (v + length cs) | e # _ \<Rightarrow> Inl e)"
  by (induction cs arbitrary: v)
     (auto simp: render_def split: option.splits list.splits)

lemma and_then_fst:
  "fst (and_then m f) = (case fst m of Inl e \<Rightarrow> Inl e | Inr x \<Rightarrow> fst (f x))"
  by (cases m; cases "fst m") (auto simp: and_then_def split: prod.splits)

lemma and_then_snd:
  "snd (and_then m f) = snd m @ (case fst m of Inl e \<Rightarrow> [] | Inr x \<Rightarrow> snd (f x))"
  by (cases m; cases "fst m") (auto simp: and_then_def split: prod.splits)

lemma set_first_seen [simp]: "set (first_seen xs) = set xs"
  by (simp add: first_seen_def)

lemma channel_views_names: "set (map fst (channel_views pd rs)) \<subseteq> channel ` set rs"
proof -
  let ?table = "map (\<lambda>c. (c, column_sum pd
                        (List.map_filter views_in_billions (filter (\<lambda>r. channel r = c) rs))))
            (channel_names rs)"
  have "set (channel_views pd rs) \<subseteq> set ?table"
    unfolding channel_views_def using set_sort_values_desc [of pd snd ?table]
    by (auto dest!: in_set_takeD)
  then have "set (map fst (channel_views pd rs)) \<subseteq> set (map fst ?table)" by auto
  also have "map fst ?table = channel_names rs" by (simp add: comp_def)
  finally show ?thesis unfolding set_channel_names by blast
qed

lemma channel_counts_names: "set (map fst (channel_counts pd rs)) \<subseteq> channel ` set rs"
proof -
  let ?table = "map (\<lambda>c. (c, length (filter (\<lambda>r. channel r = c) rs)))
            (first_seen (filter (\<lambda>c. c \<noteq> Missing) (map channel rs)))"
  have "set (channel_counts pd rs) \<subseteq> set ?table"
    unfolding channel_counts_def using set_sort_values_desc [of pd "\<lambda>l. real (snd l)" ?table]
    by (auto dest!: in_set_takeD)
  then have "set (map fst (channel_counts pd rs)) \<subseteq> set (map fst ?table)" by auto
  also have "map fst ?table = first_seen (filter (\<lambda>c. c \<noteq> Missing) (map channel rs))"
    by (simp add: comp_def)
  finally show ?thesis by auto
qed

lemma text_frame_no_source_error:
  assumes "''title'' \<in> set (columns f)"
    and "\<forall>r \<in> set (rows f). is_str (title r) \<and> is_str (channel r)"
  shows "source_error pd f c = None"
proof -
  have t: "labels_error (map title (nlargest pd 15 (rows f))) = None"
    using set_nlargest [of pd 15 "rows f"] assms(2) by (intro labels_error_str) auto
  have v: "labels_error (map fst (channel_views pd (rows f))) = None"
    using channel_views_names [of pd "rows f"] assms(2) by (intro labels_error_str) auto
  have n: "labels_error (map fst (channel_counts pd (rows f))) = None"
    using channel_counts_names [of pd "rows f"] assms(2) by (intro labels_error_str) auto
  show ?thesis by (simp add: source_error_def assms(1) t v n)
qed

lemma text_frame_chart_error:
  assumes "''title'' \<in> set (columns f)"
    and "\<forall>r \<in> set (rows f). is_str (title r) \<and> is_str (channel r)"
  shows "chart_error lib pd f = lib"
  by (rule ext) (simp add: chart_error_def text_frame_no_source_error [OF assms])

text \<open>
  C2, amended. Nothing inside \<open>create_visualizations\<close> catches a failure: the charts
  saved are those before the first chart that raises, that chart and every later one
  are not rendered, and the method raises the error of that chart; it returns only
  when no chart raises. The one chart left out without an error is the followers
  chart, by its guard.
\<close>

theorem create_visualizations_first_failure:
  assumes "df d = Some f"
  shows "created (snd (create_visualizations lib pd d))
           = takeWhile (\<lambda>c. chart_error lib pd f c = None) (plan (rows f))
       \<and> fst (create_visualizations lib pd d)
           = (case List.map_filter (chart_error lib pd f) (plan (rows f)) of
                [] \<Rightarrow> Inr d
              | e # _ \<Rightarrow> Inl e)"
proof -
  let ?run = "render_all (chart_error lib pd f) (plan (rows f)) 0"
  have cv: "create_visualizations lib pd d = and_then ?run (\<lambda>v. (Inr d, [AllVisualizationsSaved v]))"
    by (rule create_visualizations_plan [OF assms])
  have "created (snd (create_visualizations lib pd d)) = created (snd ?run)"
    unfolding cv and_then_snd by (cases "fst ?run") simp_all
  then have a: "created (snd (create_visualizations lib pd d))
           = takeWhile (\<lambda>c. chart_error lib pd f c = None) (plan (rows f))"
    by (simp only: render_all_created)
  have b: "fst (create_visualizations lib pd d)
           = (case List.map_filter (chart_error lib pd f) (plan (rows f)) of
                [] \<Rightarrow> Inr d
              | e # _ \<Rightarrow> Inl e)"
    unfolding cv and_then_fst render_all_result by (simp split: list.splits)
  from a b show ?thesis by (rule conjI)
qed

lemma cleaned_row_fields [simp]:
  "title (cleaned_row v) = Str ''Song''"
  "channel (cleaned_row v) = Str ''Channel''"
  "view_count (cleaned_row v) = Some v"
  "duration (cleaned_row v) = Some 200"
  "channel_follower_count (cleaned_row v) = None"
  by (simp_all add: cleaned_row_def derive_def convert_def sample_row_def)

lemma four_songs_frame:
  "df four_songs = Some (the (df four_songs))"
  "''title'' \<in> set (columns (the (df four_songs)))"
  "\<forall>r \<in> set (rows (the (df four_songs))). is_str (title r) \<and> is_str (channel r)"
  "plan (rows (the (df four_songs))) = [TopSongs, TopChannels, ViewDistribution, DurationVsViews,
      DurationDistribution, PopularityDistribution, TopChannelsByCount, CorrelationHeatmap]"
  by (simp_all add: four_songs_def full_header_def plan_def followers_data_def)

text \<open>
  C2, as stated, fails: when saving the third chart raises, the first two charts are
  there, the stage ends with that error and the six charts after it are not rendered.
\<close>

theorem chart_failure_aborts_visualizations:
  "create_visualizations (disk_full_at ViewDistribution) exact_pandas four_songs
     = (Inl OSError, [CreatedVisualization 1 TopSongs, CreatedVisualization 2 TopChannels])"
  unfolding create_visualizations_plan [OF four_songs_frame(1)]
    text_frame_chart_error [OF four_songs_frame(2,3)] four_songs_frame(4)
  by (simp add: render_def disk_full_at_def)

theorem create_visualizations_first_failure_witness:
  "created (snd (create_visualizations (disk_full_at CorrelationHeatmap) exact_pandas four_songs))
     = [TopSongs, TopChannels, ViewDistribution, DurationVsViews, DurationDistribution,
        PopularityDistribution, TopChannelsByCount]
   \<and> fst (create_visualizations (disk_full_at CorrelationHeatmap) exact_pandas four_songs)
       = Inl OSError"
  using create_visualizations_first_failure [OF four_songs_frame(1),
      of "disk_full_at CorrelationHeatmap" exact_pandas]
  unfolding text_frame_chart_error [OF four_songs_frame(2,3)] four_songs_frame(4)
  by (simp add: disk_full_at_def)

lemma followers_not_planned:
  "length (followers_data rs) \<le> 100 \<Longrightarrow> FollowersVsViews \<notin> set (plan rs)"
  by (simp add: plan_def)

lemma render_all_ok:
  "(\<forall>c \<in> set cs. err c = None) \<Longrightarrow>
     render_all err cs v = (Inr (v + length cs), map (\<lambda>(i, c). CreatedVisualization (v + 1 + i) c) (enumerate 0 cs))"
proof (induction cs arbitrary: v)
  case Nil
  show ?case by simp
next
  case (Cons c cs)
  then have c: "err c = None" and cs: "\<forall>c \<in> set cs. err c = None" by simp_all
  have "map (\<lambda>(i, c). CreatedVisualization (v + 1 + i) c) (enumerate (Suc 0) cs)
      = map (\<lambda>(i, c). CreatedVisualization (Suc v + 1 + i) c) (enumerate 0 cs)"
    by (simp add: enumerate_eq_zip map_Suc_upt [symmetric] zip_map1 del: upt_Suc)
       (simp add: map_eq_conv split_def)
  then show ?case
    by (simp add: render_def c Cons.IH [OF cs])
qed

lemma map_filter_empty: "List.map_filter g xs = [] \<longleftrightarrow> (\<forall>x \<in> set xs. g x = None)"
  by (induction xs) (auto split: option.splits)

lemma create_visualizations_returns:
  assumes "df d = Some f" and "fst (create_visualizations lib pd d) = Inr d'"
  shows "\<forall>c \<in> set (plan (rows f)). chart_error lib pd f c = None"
proof -
  have "fst (render_all (chart_error lib pd f) (plan (rows f)) 0) \<noteq> Inl e" for e
    using assms(2) unfolding create_visualizations_plan [OF assms(1)] and_then_fst
    by (auto split: sum.splits)
  then have "List.map_filter (chart_error lib pd f) (plan (rows f)) = []"
    unfolding render_all_result
    by (cases "List.map_filter (chart_error lib pd f) (plan (rows f))") auto
  then show ?thesis by (simp only: map_filter_empty)
qed

text \<open>
  C8. On a frame where fewer than 100 rows (at most 100, even) have a follower count,
  the followers chart is skipped: its block returns at once, prints nothing and raises
  nothing, and the chart is never among those produced. Whenever the method returns,
  every other chart of the list has been produced, in its order.
\<close>

theorem followers_chart_skipped:
  assumes "df d = Some f" and "length (followers_data (rows f)) \<le> 100"
  shows "followers_chart lib (rows f) v = (Inr v, [])
       \<and> FollowersVsViews \<notin> set (created (snd (create_visualizations lib pd d)))
       \<and> (fst (create_visualizations lib pd d) = Inr d' \<longrightarrow>
            create_visualizations lib pd d =
              (Inr d, [CreatedVisualization 1 TopSongs, CreatedVisualization 2 TopChannels,
                       CreatedVisualization 3 ViewDistribution,
                       CreatedVisualization 4 DurationVsViews,
                       CreatedVisualization 5 DurationDistribution,
                       CreatedVisualization 6 PopularityDistribution,
                       CreatedVisualization 7 TopChannelsByCount,
                       CreatedVisualization 8 CorrelationHeatmap,
                       AllVisualizationsSaved 8]))"
proof (intro conjI impI)
  show "followers_chart lib (rows f) v = (Inr v, [])"
    using assms(2) by (simp add: followers_chart_def)
next
  let ?run = "render_all (chart_error lib pd f) (plan (rows f)) 0"
  have cv: "create_visualizations lib pd d = and_then ?run (\<lambda>v. (Inr d, [AllVisualizationsSaved v]))"
    by (rule create_visualizations_plan [OF assms(1)])
  have "created (snd (create_visualizations lib pd d)) = created (snd ?run)"
    unfolding cv and_then_snd by (cases "fst ?run") simp_all
  then have "set (created (snd (create_visualizations lib pd d))) \<subseteq> set (plan (rows f))"
    by (simp only: render_all_created) (rule set_takeWhileD [THEN conjunct1, THEN subsetI])
  with followers_not_planned [OF assms(2)]
  show "FollowersVsViews \<notin> set (created (snd (create_visualizations lib pd d)))" by blast
next
  assume "fst (create_visualizations lib pd d) = Inr d'"
  then have ok: "\<forall>c \<in> set (plan (rows f)). chart_error lib pd f c = None"
    by (rule create_visualizations_returns [OF assms(1)])
  have p: "plan (rows f) = [TopSongs, TopChannels, ViewDistribution, DurationVsViews,
      DurationDistribution, PopularityDistribution, TopChannelsByCount, CorrelationHeatmap]"
    using assms(2) by (simp add: plan_def)
  show "create_visualizations lib pd d =
              (Inr d, [CreatedVisualization 1 TopSongs, CreatedVisualization 2 TopChannels,
                       CreatedVisualization 3 ViewDistribution,
                       CreatedVisualization 4 DurationVsViews,
                       CreatedVisualization 5 DurationDistribution,
                       CreatedVisualization 6 PopularityDistribution,
                       CreatedVisualization 7 TopChannelsByCount,
                       CreatedVisualization 8 CorrelationHeatmap,
                       AllVisualizationsSaved 8])"
    unfolding create_visualizations_plan [OF assms(1)] render_all_ok [OF ok]
    unfolding p by (simp add: enumerate_eq_zip upt_conv_Cons)
qed

theorem followers_chart_skipped_witness:
  "length (followers_data (rows (the (df four_songs)))) < 100
   \<and> followers_chart no_failure (rows (the (df four_songs))) 5 = (Inr 5, [])
   \<and> fst (create_visualizations no_failure exact_pandas four_songs) = Inr four_songs
   \<and> created (snd (create_visualizations no_failure exact_pandas four_songs))
       = [TopSongs, TopChannels, ViewDistribution, DurationVsViews, DurationDistribution,
          PopularityDistribution, TopChannelsByCount, CorrelationHeatmap]"
proof -
  let ?f = "the (df four_songs)"
  have lt: "length (followers_data (rows ?f)) < 100"
    by (simp add: followers_data_def four_songs_def)
  then have le: "length (followers_data (rows ?f)) \<le> 100" by simp
  have ret: "fst (create_visualizations no_failure exact_pandas four_songs) = Inr four_songs"
    unfolding create_visualizations_plan [OF four_songs_frame(1)]
      text_frame_chart_error [OF four_songs_frame(2,3)] four_songs_frame(4)
    by (simp add: render_def no_failure_def)
  from followers_chart_skipped [OF four_songs_frame(1) le, of no_failure 5 exact_pandas four_songs] ret
  have a: "followers_chart no_failure (rows ?f) 5 = (Inr 5, [])"
    and b: "create_visualizations no_failure exact_pandas four_songs =
              (Inr four_songs, [CreatedVisualization 1 TopSongs, CreatedVisualization 2 TopChannels,
                       CreatedVisualization 3 ViewDistribution,
                       CreatedVisualization 4 DurationVsViews,
                       CreatedVisualization 5 DurationDistribution,
                       CreatedVisualization 6 PopularityDistribution,
                       CreatedVisualization 7 TopChannelsByCount,
                       CreatedVisualization 8 CorrelationHeatmap,
                       AllVisualizationsSaved 8])"
    by blast+
  show ?thesis using lt a by (simp add: b)
qed

subsection \<open>The pipeline\<close>

lemma stages_cases:
  "stages w d =
     (case load_and_clean_data (disk w) d of
        (Inl e, o1) \<Rightarrow> (Inl e, o1)
      | (Inr d1, o1) \<Rightarrow>
     (case exploratory_data_analysis (library w) d1 of
        (Inl e, o2) \<Rightarrow> (Inl e, o1 @ o2)
      | (Inr (d2, ranked), o2) \<Rightarrow>
     (case statistical_analysis d2 of
        (Inl e, o3) \<Rightarrow> (Inl e, o1 @ o2 @ o3)
      | (Inr d3, o3) \<Rightarrow>
     (case create_visualizations (plotting w) (library w) d3 of
        (Inl e, o4) \<Rightarrow> (Inl e, o1 @ o2 @ o3 @ o4)
      | (Inr d4, o4) \<Rightarrow>
     (case generate_insights_report (report_write w) (library w) d4 of
        (Inl e, o5) \<Rightarrow> (Inl e, o1 @ o2 @ o3 @ o4 @ o5)
      | (Inr d5, o5) \<Rightarrow> (Inr d5, o1 @ o2 @ o3 @ o4 @ o5 @ [AnalysisCompleted]))))))"
  unfolding stages_def and_then_def
  by (simp split: prod.splits sum.splits)

text \<open>
  C9. \<open>run_analysis\<close> always returns and never raises, so the process ends with exit
  status 0, after a success and after a failure alike. What it prints is what the
  stages printed, followed by the error and its traceback when a stage raised. A stage
  that raises ends the stages: the result is that error with what was printed up to
  it, and nothing of a later stage.
\<close>

theorem run_analysis_never_raises:
  "fst (run_analysis w d) = Inr ()
   \<and> exit_status (main w) = 0
   \<and> snd (run_analysis w d)
       = snd (stages w d)
         @ (case fst (stages w d) of Inl e \<Rightarrow> [ErrorDuringAnalysis e, Traceback] | Inr _ \<Rightarrow> [])
   \<and> stages w d =
     (case load_and_clean_data (disk w) d of
        (Inl e, o1) \<Rightarrow> (Inl e, o1)
      | (Inr d1, o1) \<Rightarrow>
     (case exploratory_data_analysis (library w) d1 of
        (Inl e, o2) \<Rightarrow> (Inl e, o1 @ o2)
      | (Inr (d2, ranked), o2) \<Rightarrow>
     (case statistical_analysis d2 of
        (Inl e, o3) \<Rightarrow> (Inl e, o1 @ o2 @ o3)
      | (Inr d3, o3) \<Rightarrow>
     (case create_visualizations (plotting w) (library w) d3 of
        (Inl e, o4) \<Rightarrow> (Inl e, o1 @ o2 @ o3 @ o4)
      | (Inr d4, o4) \<Rightarrow>
     (case generate_insights_report (report_write w) (library w) d4 of
        (Inl e, o5) \<Rightarrow> (Inl e, o1 @ o2 @ o3 @ o4 @ o5)
      | (Inr d5, o5) \<Rightarrow> (Inr d5, o1 @ o2 @ o3 @ o4 @ o5 @ [AnalysisCompleted]))))))"
proof -
  have a: "fst (run_analysis w d) = Inr ()" for w d
    by (simp add: run_analysis_def split: prod.splits sum.splits)
  have b: "exit_status (main w) = 0"
    by (simp add: exit_status_def main_def a)
  have c: "snd (run_analysis w d)
       = snd (stages w d)
         @ (case fst (stages w d) of Inl e \<Rightarrow> [ErrorDuringAnalysis e, Traceback] | Inr _ \<Rightarrow> [])"
    by (simp add: run_analysis_def split: prod.splits sum.splits)
  from a b c stages_cases show ?thesis by (intro conjI)
qed

lemma load_five_rows:
  "load_and_clean_data (\<lambda>p. Content five_rows) (init p)
     = (Inr ((init p)\<lparr>df := Some five_rows_frame\<rparr>),
        [LoadedRecords 5, RemovedRows 1, CleaningCompleted])"
  by (simp add: load_and_clean_data_def read_csv_def five_rows_def full_header_def Let_def
      dropna_def complete_def add_derived_features_def five_rows_frame_def cleaned_row_def
      convert_def sample_row_def)

lemma five_rows_frame_text:
  "1 < length (rows five_rows_frame)"
  "''title'' \<in> set (columns five_rows_frame)"
  "''duration_string'' \<in> set (columns five_rows_frame)"
  "\<forall>r \<in> set (rows five_rows_frame). is_str (title r) \<and> is_str (channel r)"
  by (simp_all add: five_rows_frame_def full_header_def)

lemma eda_five_rows:
  assumes "df d = Some five_rows_frame"
  shows "\<exists>d' ranked. exploratory_data_analysis pd d = (Inr (d', ranked), [EdaCompleted])
           \<and> df d' = Some five_rows_frame"
  using eda_ok [OF assms five_rows_frame_text(1,2,3,4), of pd] by blast

lemma stats_five_rows:
  assumes "df d = Some five_rows_frame"
  shows "\<exists>d'. statistical_analysis d
           = (Inr d', [PopularityCategory ''Mega Hits'' 0 0, PopularityCategory ''Popular'' 0 0,
                       PopularityCategory ''Moderate'' 4 100, StatisticsCompleted])
           \<and> df d' = Some five_rows_frame"
proof -
  have ne: "rows five_rows_frame \<noteq> []" by (simp add: five_rows_frame_def)
  have m: "mega_hits (rows five_rows_frame) = 0" "popular (rows five_rows_frame) = 0"
    "moderate (rows five_rows_frame) = 4"
    by (simp_all add: five_rows_frame_def mega_hits_def popular_def moderate_def)
  have c: "correlation_analysis (rows five_rows_frame) = []"
    by (simp add: five_rows_frame_def correlation_analysis_def correlation_data_def)
  show ?thesis
    unfolding statistical_analysis_nonempty [OF assms ne] m c
    by (simp add: assms five_rows_frame_def)
qed

lemma viz_five_rows:
  assumes "df d = Some five_rows_frame"
  shows "create_visualizations lib pd d =
           and_then (render_all lib [TopSongs, TopChannels, ViewDistribution, DurationVsViews,
                       DurationDistribution, PopularityDistribution, TopChannelsByCount,
                       CorrelationHeatmap] 0)
                    (\<lambda>v. (Inr d, [AllVisualizationsSaved v]))"
proof -
  have p: "plan (rows five_rows_frame) = [TopSongs, TopChannels, ViewDistribution, DurationVsViews,
      DurationDistribution, PopularityDistribution, TopChannelsByCount, CorrelationHeatmap]"
    by (simp add: plan_def followers_data_def five_rows_frame_def)
  show ?thesis
    unfolding create_visualizations_plan [OF assms] p
      text_frame_chart_error [OF five_rows_frame_text(2,4)] ..
qed

lemma report_five_rows:
  assumes "df d = Some five_rows_frame"
  shows "generate_insights_report None pd d = (Inr d, [ReportSaved])"
proof -
  have "Suc 0 < length (rows five_rows_frame)" by (simp add: five_rows_frame_def)
  from nlargest_nonempty [OF this, of pd]
  obtain r rest where "nlargest pd (Suc 0) (rows five_rows_frame) = r # rest"
    by (cases "nlargest pd (Suc 0) (rows five_rows_frame)") auto
  then show ?thesis
    by (simp add: generate_insights_report_def assms)
qed

lemma stages_five_rows_ok:
  "\<exists>d'. stages (five_rows_world no_failure) (init p)
     = (Inr d', [LoadedRecords 5, RemovedRows 1, CleaningCompleted, EdaCompleted,
         PopularityCategory ''Mega Hits'' 0 0, PopularityCategory ''Popular'' 0 0,
         PopularityCategory ''Moderate'' 4 100, StatisticsCompleted,
         CreatedVisualization 1 TopSongs, CreatedVisualization 2 TopChannels,
         CreatedVisualization 3 ViewDistribution, CreatedVisualization 4 DurationVsViews,
         CreatedVisualization 5 DurationDistribution,
         CreatedVisualization 6 PopularityDistribution,
         CreatedVisualization 7 TopChannelsByCount, CreatedVisualization 8 CorrelationHeatmap,
         AllVisualizationsSaved 8, ReportSaved, AnalysisCompleted])"
proof -
  let ?d1 = "(init p)\<lparr>df := Some five_rows_frame\<rparr>"
  have d1: "df ?d1 = Some five_rows_frame" by simp
  from eda_five_rows [OF d1, of exact_pandas] obtain d2 ranked
    where e: "exploratory_data_analysis exact_pandas ?d1 = (Inr (d2, ranked), [EdaCompleted])"
      and d2: "df d2 = Some five_rows_frame" by blast
  from stats_five_rows [OF d2] obtain d3
    where s: "statistical_analysis d2
           = (Inr d3, [PopularityCategory ''Mega Hits'' 0 0, PopularityCategory ''Popular'' 0 0,
                       PopularityCategory ''Moderate'' 4 100, StatisticsCompleted])"
      and d3: "df d3 = Some five_rows_frame" by blast
  have v: "create_visualizations no_failure exact_pandas d3 =
      (Inr d3, [CreatedVisualization 1 TopSongs, CreatedVisualization 2 TopChannels,
         CreatedVisualization 3 ViewDistribution, CreatedVisualization 4 DurationVsViews,
         CreatedVisualization 5 DurationDistribution,
         CreatedVisualization 6 PopularityDistribution,
         CreatedVisualization 7 TopChannelsByCount, CreatedVisualization 8 CorrelationHeatmap,
         AllVisualizationsSaved 8])"
    unfolding viz_five_rows [OF d3] by (simp add: render_def no_failure_def)
  show ?thesis
    unfolding stages_cases
    by (simp add: five_rows_world_def load_five_rows e s v report_five_rows [OF d3])
qed

lemma stages_five_rows_disk_full:
  "stages (five_rows_world (disk_full_at ViewDistribution)) (init p)
     = (Inl OSError, [LoadedRecords 5, RemovedRows 1, CleaningCompleted, EdaCompleted,
         PopularityCategory ''Mega Hits'' 0 0, PopularityCategory ''Popular'' 0 0,
         PopularityCategory ''Moderate'' 4 100, StatisticsCompleted,
         CreatedVisualization 1 TopSongs, CreatedVisualization 2 TopChannels])"
proof -
  let ?d1 = "(init p)\<lparr>df := Some five_rows_frame\<rparr>"
  have d1: "df ?d1 = Some five_rows_frame" by simp
  from eda_five_rows [OF d1, of exact_pandas] obtain d2 ranked
    where e: "exploratory_data_analysis exact_pandas ?d1 = (Inr (d2, ranked), [EdaCompleted])"
      and d2: "df d2 = Some five_rows_frame" by blast
  from stats_five_rows [OF d2] obtain d3
    where s: "statistical_analysis d2
           = (Inr d3, [PopularityCategory ''Mega Hits'' 0 0, PopularityCategory ''Popular'' 0 0,
                       PopularityCategory ''Moderate'' 4 100, StatisticsCompleted])"
      and d3: "df d3 = Some five_rows_frame" by blast
  have v: "create_visualizations (disk_full_at ViewDistribution) exact_pandas d3 =
      (Inl OSError, [CreatedVisualization 1 TopSongs, CreatedVisualization 2 TopChannels])"
    unfolding viz_five_rows [OF d3] by (simp add: render_def disk_full_at_def)
  show ?thesis
    unfolding stages_cases
    by (simp add: five_rows_world_def load_five_rows e s v)
qed

lemma stages_missing_file:
  "stages missing_file_world d = (Inl FileNotFoundError, [])"
  unfolding stages_cases
  by (simp add: missing_file_world_def load_and_clean_data_def read_csv_def)

theorem run_analysis_never_raises_witness:
  "run_analysis missing_file_world (init ''songs.csv'')
     = (Inr (), [ErrorDuringAnalysis FileNotFoundError, Traceback])
   \<and> run_analysis (five_rows_world (disk_full_at ViewDistribution)) (init ''songs.csv'')
     = (Inr (), [LoadedRecords 5, RemovedRows 1, CleaningCompleted, EdaCompleted,
         PopularityCategory ''Mega Hits'' 0 0, PopularityCategory ''Popular'' 0 0,
         PopularityCategory ''Moderate'' 4 100, StatisticsCompleted,
         CreatedVisualization 1 TopSongs, CreatedVisualization 2 TopChannels,
         ErrorDuringAnalysis OSError, Traceback])
   \<and> run_analysis (five_rows_world no_failure) (init ''songs.csv'')
     = (Inr (), [LoadedRecords 5, RemovedRows 1, CleaningCompleted, EdaCompleted,
         PopularityCategory ''Mega Hits'' 0 0, PopularityCategory ''Popular'' 0 0,
         PopularityCategory ''Moderate'' 4 100, StatisticsCompleted,
         CreatedVisualization 1 TopSongs, CreatedVisualization 2 TopChannels,
         CreatedVisualization 3 ViewDistribution, CreatedVisualization 4 DurationVsViews,
         CreatedVisualization 5 DurationDistribution,
         CreatedVisualization 6 PopularityDistribution,
         CreatedVisualization 7 TopChannelsByCount, CreatedVisualization 8 CorrelationHeatmap,
         AllVisualizationsSaved 8, ReportSaved, AnalysisCompleted])
   \<and> exit_status (main missing_file_world) = 0"
proof -
  let ?d = "init ''songs.csv''"
  obtain d' where ok: "stages (five_rows_world no_failure) ?d
     = (Inr d', [LoadedRecords 5, RemovedRows 1, CleaningCompleted, EdaCompleted,
         PopularityCategory ''Mega Hits'' 0 0, PopularityCategory ''Popular'' 0 0,
         PopularityCategory ''Moderate'' 4 100, StatisticsCompleted,
         CreatedVisualization 1 TopSongs, CreatedVisualization 2 TopChannels,
         CreatedVisualization 3 ViewDistribution, CreatedVisualization 4 DurationVsViews,
         CreatedVisualization 5 DurationDistribution,
         CreatedVisualization 6 PopularityDistribution,
         CreatedVisualization 7 TopChannelsByCount, CreatedVisualization 8 CorrelationHeatmap,
         AllVisualizationsSaved 8, ReportSaved, AnalysisCompleted])"
    using stages_five_rows_ok [of "''songs.csv''"] by blast
  have split: "r = (fst r, snd r)" for r :: "unit outcome" by simp
  have a: "run_analysis missing_file_world ?d
     = (Inr (), [ErrorDuringAnalysis FileNotFoundError, Traceback])"
    using run_analysis_never_raises [of missing_file_world ?d]
    by (subst split) (simp add: stages_missing_file)
  have b: "run_analysis (five_rows_world (disk_full_at ViewDistribution)) ?d
     = (Inr (), [LoadedRecords 5, RemovedRows 1, CleaningCompleted, EdaCompleted,
         PopularityCategory ''Mega Hits'' 0 0, PopularityCategory ''Popular'' 0 0,
         PopularityCategory ''Moderate'' 4 100, StatisticsCompleted,
         CreatedVisualization 1 TopSongs, CreatedVisualization 2 TopChannels,
         ErrorDuringAnalysis OSError, Traceback])"
    using run_analysis_never_raises [of "five_rows_world (disk_full_at ViewDistribution)" ?d]
    by (subst split) (simp add: stages_five_rows_disk_full)
  have c: "run_analysis (five_rows_world no_failure) ?d
     = (Inr (), [LoadedRecords 5, RemovedRows 1, CleaningCompleted, EdaCompleted,
         PopularityCategory ''Mega Hits'' 0 0, PopularityCategory ''Popular'' 0 0,
         PopularityCategory ''Moderate'' 4 100, StatisticsCompleted,
         CreatedVisualization 1 TopSongs, CreatedVisualization 2 TopChannels,
         CreatedVisualization 3 ViewDistribution, CreatedVisualization 4 DurationVsViews,
         CreatedVisualization 5 DurationDistribution,
         CreatedVisualization 6 PopularityDistribution,
         CreatedVisualization 7 TopChannelsByCount, CreatedVisualization 8 CorrelationHeatmap,
         AllVisualizationsSaved 8, ReportSaved, AnalysisCompleted])"
    using run_analysis_never_raises [of "five_rows_world no_failure" ?d]
    by (subst split) (simp add: ok)
  have e: "exit_status (main missing_file_world) = 0"
    using run_analysis_never_raises [of missing_file_world ?d] by blast
  from a b c e show ?thesis by (intro conjI)
qed

end
